theory Spec2Isabelle
  imports Complex_Main "HOL-Library.Log_Nat"
begin

section \<open>Publish/subscribe of the state store (module State, in src/playlist.js)\<close>

text \<open>
  \<^verbatim>\<open>subscribers\<close> maps an event name to the array of callbacks registered for it.
  A callback is JavaScript code that runs against the rest of the program and may
  throw: it is modelled as a function from the payload and the world it runs in to
  the world it leaves behind together with the exception it threw, if any.
\<close>

type_synonym ('d, 'w) callback = "'d \<Rightarrow> 'w \<Rightarrow> 'w \<times> string option"










section \<open>The state store (module State, in src/playlist.js)\<close>

text \<open>
  A song is an object keyed by its \<^verbatim>\<open>path\<close>. A placeholder is the object
  \<^verbatim>\<open>{path, isPlaceholder: true}\<close>; \<^verbatim>\<open>markers\<close> may be absent (\<open>None\<close>).
  Timestamps are seconds; a JavaScript number is given by its value, a rational
  (the arithmetic on doubles is in the section on markers).
\<close>

record marker =
  marker_id :: string
  timestamp :: rat

record song =
  path :: string
  name :: string
  artist :: string
  isMissing :: bool
  isPlaceholder :: bool
  markers :: "marker list option"

text \<open>The audio element, as far as the store and the playlist module touch it.\<close>

record audio_state =
  src :: string
  currentTime :: rat
  paused :: bool

datatype api_call =
    Api_addSongsToPlaylist string "song list"
  | Api_renamePlaylist string string
  | Api_deletePlaylist string bool
  | Api_deleteSongs "string list"
  | Api_reorderPlaylistSongs string "string list"
  | Api_reorderPlaylists "string list"
  | Api_moveSongsToPlaylist string string "string list"

text \<open>
  The module's \<^verbatim>\<open>state\<close> object (its \<^verbatim>\<open>musicData\<close> flattened), the module variable
  \<^verbatim>\<open>isUpdating\<close>, and what the store reaches outside itself: the audio element with
  its \<^verbatim>\<open>readyState\<close> and the \<^verbatim>\<open>loadedmetadata\<close> listeners added to it, the toasts
  shown, the backend calls started, the errors that left an \<^verbatim>\<open>async\<close> function of the
  store as the rejection of its promise, and the numbers \<^verbatim>\<open>Math.random\<close> will return
  (each already scaled to a natural number, consumed first to last).
  An object used as a dictionary is the map of its own properties; a key bound to
  \<^verbatim>\<open>undefined\<close> is identified with an absent key.
\<close>

record world =
  songs :: "string \<rightharpoonup> song"
  playlists :: "string \<rightharpoonup> string list"
  playlistOrder :: "string list"
  activePlaylist :: string
  playQueue :: "song list"
  currentSongIndex :: int
  isShuffling :: bool
  shuffledPlaylist :: "song list"
  shuffledIndex :: int
  selectedSongPaths :: "string list"
  lastClickedPath :: "string option"
  viewMode :: string
  isUpdating :: bool
  audio :: audio_state
  readyState :: nat
  loadedmetadata :: "audio_state list"
  toasts :: "(string \<times> string) list"
  apiCalls :: "api_call list"
  rejections :: "string list"
  randoms :: "nat list"

subsection \<open>Getters\<close>

definition placeholder :: "string \<Rightarrow> song" where
  "placeholder p =
     \<lparr>path = p, name = [], artist = [], isMissing = False, isPlaceholder = True,
      markers = None\<rparr>"

text \<open>
  A read \<^verbatim>\<open>obj[key]\<close> of a plain object (an object literal, a spread, a value parsed
  from JSON: what \<^verbatim>\<open>musicData.playlists\<close> and \<^verbatim>\<open>musicData.songs\<close> are) gives the own
  property of that name if there is one, and else the property of that name of
  \<^verbatim>\<open>Object.prototype\<close>, if there is one; otherwise \<^verbatim>\<open>undefined\<close>. The properties of
  \<^verbatim>\<open>Object.prototype\<close> are functions, and \<^verbatim>\<open>__proto__\<close> reads as \<^verbatim>\<open>Object.prototype\<close>
  itself: each is truthy, none is an array, none has a property \<^verbatim>\<open>map\<close>.
\<close>

definition Object_prototype :: "string list" where
  "Object_prototype =
     [''constructor'', ''__defineGetter__'', ''__defineSetter__'', ''hasOwnProperty'',
      ''__lookupGetter__'', ''__lookupSetter__'', ''isPrototypeOf'', ''propertyIsEnumerable'',
      ''toString'', ''valueOf'', ''__proto__'', ''toLocaleString'']"

datatype 'a property = Own 'a | Inherited string | Undefined

definition get_property :: "(string \<rightharpoonup> 'a) \<Rightarrow> string \<Rightarrow> 'a property" where
  "get_property obj key =
     (case obj key of
        Some v \<Rightarrow> Own v
      | None \<Rightarrow> if key \<in> set Object_prototype then Inherited key else Undefined)"

text \<open>
  \<^verbatim>\<open>getActivePlaylist\<close> as the language runs it. An element of the array it returns is
  a song or, for a path that is no key of the cache and names a property of
  \<^verbatim>\<open>Object.prototype\<close>, that property. When the active playlist's name is no key of
  the playlists and names a property of \<^verbatim>\<open>Object.prototype\<close>, \<^verbatim>\<open>|| []\<close> keeps the
  property and calling its \<^verbatim>\<open>map\<close>, which is \<^verbatim>\<open>undefined\<close>, throws a \<^verbatim>\<open>TypeError\<close>.
\<close>

datatype element = Song song | Member_of_Object_prototype string

definition getActivePlaylist :: "world \<Rightarrow> string + element list" where
  "getActivePlaylist w =
     (case get_property (playlists w) (activePlaylist w) of
        Inherited k \<Rightarrow> Inl ''TypeError: activePlaylistPaths.map is not a function''
      | Undefined \<Rightarrow> Inr []
      | Own activePlaylistPaths \<Rightarrow>
          Inr (map (\<lambda>p. case get_property (songs w) p of
                            Own s \<Rightarrow> Song s
                          | Inherited k \<Rightarrow> Member_of_Object_prototype k
                          | Undefined \<Rightarrow> Song (placeholder p))
                 activePlaylistPaths))"

text \<open>
  The songs \<^verbatim>\<open>getActivePlaylist\<close> returns when each name it reads is an own property
  or names no property of \<^verbatim>\<open>Object.prototype\<close>: the call does not throw then, and its
  elements are these songs (lemma \<open>getActivePlaylist_returns\<close>). The playlist
  operations and the list renderer below take this value for the call.
\<close>

definition getActivePlaylist_own :: "world \<Rightarrow> song list" where
  "getActivePlaylist_own w =
     (let activePlaylistPaths =
            (case playlists w (activePlaylist w) of None \<Rightarrow> [] | Some ps \<Rightarrow> ps)
      in map (\<lambda>p. case songs w p of None \<Rightarrow> placeholder p | Some s \<Rightarrow> s)
           activePlaylistPaths)"

subsection \<open>Mutators\<close>

text \<open>
  Every setter assigns and then publishes the field's event. The callbacks subscribed
  to store events (in the main module) mark dirty flags of the render scheduler and
  broadcast the value; none writes a field of the store, so the setters below are the
  assignments.
\<close>

record musicData =
  md_songs :: "(string \<rightharpoonup> song) option"
  md_playlists :: "(string \<rightharpoonup> string list) option"
  md_playlistOrder :: "string list option"
  md_activePlaylist :: "string option"

definition setMusicData :: "musicData \<Rightarrow> world \<Rightarrow> world" where
  "setMusicData d w =
     (let w1 = (case md_songs d of None \<Rightarrow> w | Some s \<Rightarrow> w\<lparr>songs := songs w ++ s\<rparr>);
          w2 = (case md_playlists d of None \<Rightarrow> w1 | Some p \<Rightarrow> w1\<lparr>playlists := p\<rparr>);
          w3 = (case md_playlistOrder d of None \<Rightarrow> w2 | Some ord \<Rightarrow> w2\<lparr>playlistOrder := ord\<rparr>)
      in (case md_activePlaylist d of
            None \<Rightarrow> w3
          | Some a \<Rightarrow> if a = [] then w3 else w3\<lparr>activePlaylist := a\<rparr>))"

text \<open>\<^verbatim>\<open>{ ...State.getState().musicData }\<close>: the four fields as they are now.\<close>

definition musicData_of :: "world \<Rightarrow> musicData" where
  "musicData_of w =
     \<lparr>md_songs = Some (songs w), md_playlists = Some (playlists w),
      md_playlistOrder = Some (playlistOrder w), md_activePlaylist = Some (activePlaylist w)\<rparr>"

definition setActivePlaylist :: "string \<Rightarrow> world \<Rightarrow> world" where
  "setActivePlaylist v w = w\<lparr>activePlaylist := v\<rparr>"

definition setPlaylistOrder :: "string list \<Rightarrow> world \<Rightarrow> world" where
  "setPlaylistOrder v w = w\<lparr>playlistOrder := v\<rparr>"

definition setPlaylists :: "(string \<rightharpoonup> string list) \<Rightarrow> world \<Rightarrow> world" where
  "setPlaylists v w = w\<lparr>playlists := v\<rparr>"

definition setPlayQueue :: "song list \<Rightarrow> world \<Rightarrow> world" where
  "setPlayQueue v w = w\<lparr>playQueue := v\<rparr>"

definition setCurrentSongIndex :: "int \<Rightarrow> world \<Rightarrow> world" where
  "setCurrentSongIndex v w = w\<lparr>currentSongIndex := v\<rparr>"

definition setSelectedSongPaths :: "string list \<Rightarrow> world \<Rightarrow> world" where
  "setSelectedSongPaths v w = w\<lparr>selectedSongPaths := v\<rparr>"

definition setLastClickedPath :: "string option \<Rightarrow> world \<Rightarrow> world" where
  "setLastClickedPath v w = w\<lparr>lastClickedPath := v\<rparr>"

definition setShuffledPlaylist :: "song list \<Rightarrow> world \<Rightarrow> world" where
  "setShuffledPlaylist v w = w\<lparr>shuffledPlaylist := v\<rparr>"

definition setShuffledIndex :: "int \<Rightarrow> world \<Rightarrow> world" where
  "setShuffledIndex v w = w\<lparr>shuffledIndex := v\<rparr>"

definition setViewMode :: "string \<Rightarrow> world \<Rightarrow> world" where
  "setViewMode v w = w\<lparr>viewMode := v\<rparr>"

definition addSongsToCache :: "(string \<rightharpoonup> song) \<Rightarrow> world \<Rightarrow> world" where
  "addSongsToCache songsMap w =
     (if dom songsMap = {} then w else w\<lparr>songs := songs w ++ songsMap\<rparr>)"

definition showToast :: "string \<Rightarrow> string \<Rightarrow> world \<Rightarrow> world" where
  "showToast message kind w = w\<lparr>toasts := toasts w @ [(message, kind)]\<rparr>"

subsection \<open>The audio element\<close>

text \<open>
  Assigning \<^verbatim>\<open>audio.src\<close> makes the element start loading, which resets its
  \<^verbatim>\<open>readyState\<close>; \<^verbatim>\<open>pause()\<close> and \<^verbatim>\<open>play()\<close> set and clear \<^verbatim>\<open>paused\<close>.
\<close>

definition set_src :: "string \<Rightarrow> world \<Rightarrow> world" where
  "set_src v w = w\<lparr>audio := (audio w)\<lparr>src := v\<rparr>, readyState := 0\<rparr>"

definition set_currentTime :: "rat \<Rightarrow> world \<Rightarrow> world" where
  "set_currentTime v w = w\<lparr>audio := (audio w)\<lparr>currentTime := v\<rparr>\<rparr>"

definition pause :: "world \<Rightarrow> world" where
  "pause w = w\<lparr>audio := (audio w)\<lparr>paused := True\<rparr>\<rparr>"

definition play :: "world \<Rightarrow> world" where
  "play w = w\<lparr>audio := (audio w)\<lparr>paused := False\<rparr>\<rparr>"

section \<open>Playlist operations (module Playlist, src/playlist.js)\<close>

subsection \<open>Array helpers\<close>

fun findIndex :: "('a \<Rightarrow> bool) \<Rightarrow> 'a list \<Rightarrow> int" where
  "findIndex P [] = - 1"
| "findIndex P (x # xs) =
     (if P x then 0 else (let r = findIndex P xs in if r < 0 then - 1 else r + 1))"

text \<open>\<^verbatim>\<open>[a[i], a[j]] = [a[j], a[i]]\<close> for indices inside the array.\<close>

definition swap :: "nat \<Rightarrow> nat \<Rightarrow> 'a list \<Rightarrow> 'a list" where
  "swap i j xs = (xs[i := xs ! j])[j := xs ! i]"

text \<open>
  The Fisher-Yates loop \<^verbatim>\<open>for (i = length - 1; i > 0; i--)\<close> with
  \<^verbatim>\<open>j = Math.floor(Math.random() * (i + 1))\<close>: the next random number, reduced to
  \<open>0..i\<close>.
\<close>

fun shuffle_loop :: "nat \<Rightarrow> 'a list \<Rightarrow> nat list \<Rightarrow> 'a list \<times> nat list" where
  "shuffle_loop 0 xs rs = (xs, rs)"
| "shuffle_loop (Suc k) xs rs =
     (let j = (case rs of [] \<Rightarrow> 0 | r # _ \<Rightarrow> r mod (Suc k + 1))
      in shuffle_loop k (swap (Suc k) j xs) (tl rs))"

definition generateShuffledPlaylist :: "world \<Rightarrow> world" where
  "generateShuffledPlaylist w =
     (let currentPlaylist = getActivePlaylist_own w;
          (shuffled, rs) = shuffle_loop (length currentPlaylist - 1) currentPlaylist (randoms w);
          w1 = w\<lparr>randoms := rs\<rparr>
      in if currentSongIndex w1 > - 1 \<and> nat (currentSongIndex w1) < length currentPlaylist
         then
           (let currentSong = currentPlaylist ! nat (currentSongIndex w1);
                nowPlayingIndexInShuffle = findIndex (\<lambda>s. path s = path currentSong) shuffled;
                shuffled' = (if nowPlayingIndexInShuffle > 0
                             then swap 0 (nat nowPlayingIndexInShuffle) shuffled
                             else shuffled)
            in setShuffledPlaylist shuffled' (setShuffledIndex 0 w1))
         else setShuffledPlaylist shuffled (setShuffledIndex (- 1) w1))"

definition reshuffle_if_shuffling :: "world \<Rightarrow> world" where
  \<comment> \<open>\<^verbatim>\<open>if (State.getState().isShuffling) generateShuffledPlaylist();\<close>\<close>
  "reshuffle_if_shuffling w = (if isShuffling w then generateShuffledPlaylist w else w)"

subsection \<open>Optimistic actions\<close>

text \<open>
  An \<^verbatim>\<open>optimisticAction\<close> mutates the store and returns its undo closure. It is a
  function from the world to the world it leaves and the closure, or, when the
  action threw, to the world at the throw and the exception's message.
  The variables an action captures from the function that built it are its first
  arguments.
\<close>

type_synonym undo = "world \<Rightarrow> world"
type_synonym action = "world \<Rightarrow> world \<times> (string + undo)"

text \<open>\<^verbatim>\<open>addSongsToActivePlaylist\<close>: \<^verbatim>\<open>activePlaylistName\<close>, \<^verbatim>\<open>songsToAddToPlaylist\<close>.\<close>

definition addSongs_action :: "string \<Rightarrow> song list \<Rightarrow> action" where
  "addSongs_action activePlaylistName songsToAddToPlaylist w =
     (let originalPlaylists = playlists w;
          newSongsMap = fold (\<lambda>s m. m(path s \<mapsto> s)) songsToAddToPlaylist (songs w);
          newPathsForPlaylist =
            (case playlists w activePlaylistName of None \<Rightarrow> [] | Some ps \<Rightarrow> ps)
              @ map path songsToAddToPlaylist;
          newPlaylistsMap = (playlists w)(activePlaylistName \<mapsto> newPathsForPlaylist);
          w1 = setPlaylists newPlaylistsMap (addSongsToCache newSongsMap w);
          w2 = reshuffle_if_shuffling w1
      in (w2, Inr (\<lambda>u. reshuffle_if_shuffling (setPlaylists originalPlaylists u))))"

text \<open>\<^verbatim>\<open>renamePlaylist\<close> (in \<^verbatim>\<open>finalize\<close>): \<^verbatim>\<open>oldName\<close>, \<^verbatim>\<open>newName\<close>.\<close>

definition renamePlaylist_action :: "string \<Rightarrow> string \<Rightarrow> action" where
  "renamePlaylist_action oldName newName w =
     (let originalPlaylists = playlists w;
          originalOrder = playlistOrder w;
          originalActivePlaylist = activePlaylist w;
          optimisticPlaylists = ((playlists w)(newName := playlists w oldName))(oldName := None);
          optimisticOrder = map (\<lambda>n. if n = oldName then newName else n) (playlistOrder w);
          optimisticActivePlaylist =
            (if activePlaylist w = oldName then newName else activePlaylist w);
          w1 = setPlaylists optimisticPlaylists
                 (setPlaylistOrder optimisticOrder
                   (setActivePlaylist optimisticActivePlaylist w))
      in (w1, Inr (\<lambda>u. setPlaylists originalPlaylists
                           (setPlaylistOrder originalOrder
                             (setActivePlaylist originalActivePlaylist u)))))"

text \<open>\<^verbatim>\<open>deletePlaylist\<close>: \<^verbatim>\<open>name\<close>, \<^verbatim>\<open>wasPlayingInDeletedPlaylist\<close>.\<close>

definition deletePlaylist_action :: "string \<Rightarrow> bool \<Rightarrow> action" where
  "deletePlaylist_action nm wasPlayingInDeletedPlaylist w =
     (let originalPlaylists = playlists w;
          originalPlaylistOrder = playlistOrder w;
          originalActivePlaylist = activePlaylist w;
          originalPlayQueue = playQueue w;
          originalIndex = currentSongIndex w;
          optimisticPlaylists = (playlists w)(nm := None);
          optimisticPlaylistOrder = filter (\<lambda>n. n \<noteq> nm) (playlistOrder w);
          w1 = (if wasPlayingInDeletedPlaylist
                then (let v = setPlayQueue []
                               (setLastClickedPath None
                                 (setSelectedSongPaths []
                                   (setCurrentSongIndex (- 1)
                                     (setViewMode ''playlist''
                                       (setActivePlaylist ''Default'' w)))))
                      in if src (audio v) \<noteq> [] then set_src [] (pause v) else v)
                else w);
          w2 = setPlaylists optimisticPlaylists (setPlaylistOrder optimisticPlaylistOrder w1)
      in (w2, Inr (\<lambda>u.
            (let u1 = setPlayQueue originalPlayQueue
                        (setActivePlaylist originalActivePlaylist
                          (setPlaylistOrder originalPlaylistOrder
                            (setPlaylists originalPlaylists u)))
             in if wasPlayingInDeletedPlaylist then setCurrentSongIndex originalIndex u1
                else u1))))"

text \<open>
  \<^verbatim>\<open>deleteSelectedSongs\<close>: \<^verbatim>\<open>selectedSongPaths\<close>, \<^verbatim>\<open>playingSong\<close> (\<open>None\<close> for
  \<^verbatim>\<open>undefined\<close>), \<^verbatim>\<open>wasPlayingSongDeleted\<close>. The action throws at
  \<^verbatim>\<open>newActivePlaylistPaths.findIndex\<close> when the active playlist has no path list.
\<close>

definition deleteSongs_action :: "string list \<Rightarrow> song option \<Rightarrow> bool \<Rightarrow> action" where
  "deleteSongs_action selected playingSong wasPlayingSongDeleted w =
     (let originalIndex = currentSongIndex w;
          wasShuffling = isShuffling w;
          deletedSongObjects = songs w |` set selected;
          originalPlaylists = playlists w;
          originalPlayQueue = playQueue w;
          newSongsMap = songs w |` (- set selected);
          newPlaylistsMap =
            (\<lambda>pName. map_option (filter (\<lambda>p. p \<notin> set selected)) (playlists w pName));
          newMusicData = (musicData_of w)
            \<lparr>md_songs := Some newSongsMap, md_playlists := Some newPlaylistsMap\<rparr>;
          active = activePlaylist w;
          w1 = setMusicData newMusicData w;
          optimisticPlayQueue = filter (\<lambda>s. path s \<notin> set selected) (playQueue w);
          finish = (\<lambda>optimisticCurrentSongIndex v.
            (let v1 = setLastClickedPath None
                        (setSelectedSongPaths []
                          (setCurrentSongIndex optimisticCurrentSongIndex
                            (setPlayQueue optimisticPlayQueue v)))
             in if wasShuffling then generateShuffledPlaylist v1 else v1));
          undoAction = (\<lambda>u.
            (let restoredMusicData = (musicData_of u)
                   \<lparr>md_songs := Some (songs u ++ deletedSongObjects),
                    md_playlists := Some originalPlaylists\<rparr>;
                 u1 = setCurrentSongIndex originalIndex
                        (setPlayQueue originalPlayQueue (setMusicData restoredMusicData u))
             in if wasShuffling then generateShuffledPlaylist u1 else u1))
      in if wasPlayingSongDeleted
         then (finish (- 1) (set_src [] (pause w1)), Inr undoAction)
         else (case playingSong of
                 None \<Rightarrow> (finish originalIndex w1, Inr undoAction)
               | Some ps \<Rightarrow>
                   (case newPlaylistsMap active of
                      None \<Rightarrow> (w1, Inl ''newActivePlaylistPaths is undefined'')
                    | Some newActivePlaylistPaths \<Rightarrow>
                        (finish (findIndex (\<lambda>p. p = path ps) newActivePlaylistPaths) w1,
                         Inr undoAction))))"

text \<open>
  \<^verbatim>\<open>handleSongReorderDrop\<close> and \<^verbatim>\<open>reorderSelectedSongsInList\<close> share one action:
  \<^verbatim>\<open>currentPlaylistName\<close> and the new path order.
\<close>

definition reorderSongs_action :: "string \<Rightarrow> string list \<Rightarrow> action" where
  "reorderSongs_action currentPlaylistName newOrderedPaths w =
     (let originalPaths = playlists w currentPlaylistName;
          optimisticPlaylists = (playlists w)(currentPlaylistName \<mapsto> newOrderedPaths);
          w1 = reshuffle_if_shuffling (setPlaylists optimisticPlaylists w)
      in (w1, Inr (\<lambda>u. reshuffle_if_shuffling
                           (setPlaylists ((playlists u)(currentPlaylistName := originalPaths)) u))))"

text \<open>\<^verbatim>\<open>createNewPlaylist\<close>: \<^verbatim>\<open>newName\<close>.\<close>

definition createPlaylist_action :: "string \<Rightarrow> action" where
  "createPlaylist_action newName w =
     (let originalPlaylists = playlists w;
          originalOrder = playlistOrder w;
          optimisticOrder = playlistOrder w @ [newName];
          w1 = setPlaylistOrder optimisticOrder
                 (setPlaylists ((playlists w)(newName \<mapsto> [])) w)
      in (w1, Inr (\<lambda>u. setPlaylistOrder originalOrder (setPlaylists originalPlaylists u))))"

text \<open>The drop handler of the playlist list, reordering playlists: \<^verbatim>\<open>optimisticOrder\<close>.\<close>

definition reorderPlaylists_action :: "string list \<Rightarrow> action" where
  "reorderPlaylists_action optimisticOrder w =
     (let originalOrder = playlistOrder w
      in (setPlaylistOrder optimisticOrder w, Inr (\<lambda>u. setPlaylistOrder originalOrder u)))"

text \<open>
  The drop handler of the playlist list, moving songs: \<^verbatim>\<open>sourcePlaylistName\<close>,
  \<^verbatim>\<open>targetPlaylistName\<close>, \<^verbatim>\<open>selectedSongPaths\<close>. \<^verbatim>\<open>sourcePaths.filter\<close> and
  \<^verbatim>\<open>targetPaths.concat\<close> throw on a playlist with no path list, before any write.
\<close>

definition moveSongs_action :: "string \<Rightarrow> string \<Rightarrow> string list \<Rightarrow> action" where
  "moveSongs_action sourcePlaylistName targetPlaylistName selected w =
     (let originalPlaylists = playlists w;
          originalPlayQueue = playQueue w
      in case playlists w sourcePlaylistName of
           None \<Rightarrow> (w, Inl ''sourcePaths is undefined'')
         | Some sourcePaths \<Rightarrow>
            (case playlists w targetPlaylistName of
               None \<Rightarrow> (w, Inl ''targetPaths is undefined'')
             | Some targetPaths \<Rightarrow>
                (let uniquePathsToAdd = filter (\<lambda>p. p \<notin> set targetPaths) selected;
                     newPlaylistsMap = (playlists w)
                       (sourcePlaylistName \<mapsto> filter (\<lambda>p. p \<notin> set selected) sourcePaths,
                        targetPlaylistName \<mapsto> targetPaths @ uniquePathsToAdd);
                     w1 = setSelectedSongPaths []
                            (setPlayQueue (filter (\<lambda>s. path s \<notin> set selected) (playQueue w))
                              (setMusicData
                                ((musicData_of w)\<lparr>md_playlists := Some newPlaylistsMap\<rparr>) w))
                 in (w1, Inr (\<lambda>u. setPlayQueue originalPlayQueue
                        (setMusicData
                          ((musicData_of u)\<lparr>md_playlists := Some originalPlaylists\<rparr>) u))))))"

section \<open>Optimistic transactions (\<^verbatim>\<open>performOptimisticUpdate\<close> of module State)\<close>

text \<open>
  The options of a call. \<^verbatim>\<open>onSuccess\<close> is a callback run against the world with the
  backend's result: like a subscriber it leaves a world and may throw. A
  \<^verbatim>\<open>successMessage\<close> given as a function of the result is represented by the string
  it returns.
\<close>

record options =
  successMessage :: "string option"
  errorMessagePrefix :: "string option"
  onSuccess :: "(world \<Rightarrow> world \<times> string option) option"
  playerWasReset :: bool

text \<open>How the promise returned by \<^verbatim>\<open>apiCall()\<close> settles.\<close>

datatype outcome = Resolved | Rejected string

text \<open>
  \<^verbatim>\<open>performOptimisticUpdate\<close> is an \<^verbatim>\<open>async\<close> function with one \<^verbatim>\<open>await\<close>. Its run is
  two steps: the synchronous part up to \<^verbatim>\<open>await apiCall()\<close>, and the part resumed
  when the promise has settled. Between the two, other handlers run. What the
  suspended call keeps in its local variables is a \<open>pending\<close> record.
\<close>

record pending =
  undoAction :: undo
  originalAudioState :: "audio_state option"
  pending_options :: options

definition restorePlayback :: "audio_state \<Rightarrow> world \<Rightarrow> world" where
  \<comment> \<open>the branch \<^verbatim>\<open>else if (!audio.src) UI.resetPlayerUI()\<close> only writes to the page\<close>
  "restorePlayback orig w =
     (let w1 = set_currentTime (currentTime orig) w
      in if \<not> paused orig then play w1 else w1)"

text \<open>
  The \<^verbatim>\<open>catch\<close> block, for the exception message \<open>msg\<close>. Its first statement
  evaluates the template \<^verbatim>\<open>${errorMessagePrefix || 'Optimistic update failed'}:\<close>.
  The name \<^verbatim>\<open>errorMessagePrefix\<close> is declared by
  \<^verbatim>\<open>const { successMessage, errorMessagePrefix, onSuccess, playerWasReset = false } = options\<close>
  inside the \<^verbatim>\<open>try\<close> block. A \<^verbatim>\<open>const\<close> belongs to the block it is declared in, the
  \<^verbatim>\<open>catch\<close> block is another block, and nothing else in the sources declares the
  name; module code is strict. So the name is not in scope where the
  \<^verbatim>\<open>catch\<close> block reads it.
\<close>

datatype binding = Not_in_scope | In_scope "string option"

definition errorMessagePrefix_in_catch :: binding where
  "errorMessagePrefix_in_catch = Not_in_scope"

text \<open>
  Reading a name that is not in scope throws a \<^verbatim>\<open>ReferenceError\<close>: the statements after
  the read (the error toast, \<^verbatim>\<open>undoAction()\<close>, putting the audio element back) are not
  reached, and the error leaves \<^verbatim>\<open>performOptimisticUpdate\<close>, after \<^verbatim>\<open>finally\<close>, as the
  rejection of the promise it returned. The second branch is the rest of the block as
  written.
\<close>

definition catch_block ::
  "options \<Rightarrow> string \<Rightarrow> undo option \<Rightarrow> audio_state option \<Rightarrow> world \<Rightarrow> world" where
  "catch_block opts msg undoOpt originalAudio w =
     (case errorMessagePrefix_in_catch of
        Not_in_scope \<Rightarrow>
          w\<lparr>rejections :=
               rejections w @ [''ReferenceError: errorMessagePrefix is not defined'']\<rparr>
      | In_scope pfxOpt \<Rightarrow>
         (let prefix = (case pfxOpt of
                          None \<Rightarrow> ''Error''
                        | Some pfx \<Rightarrow> if pfx = [] then ''Error'' else pfx);
              w1 = showToast (prefix @ '': '' @ msg) ''error'' w;
              w2 = (case undoOpt of None \<Rightarrow> w1 | Some undoFn \<Rightarrow> undoFn w1)
          in case originalAudio of
               None \<Rightarrow> w2
             | Some orig \<Rightarrow>
                (let w3 = (if src (audio w2) \<noteq> src orig then set_src (src orig) w2 else w2)
                 in if src (audio w3) \<noteq> []
                    then (if readyState w3 \<ge> 2 then restorePlayback orig w3
                          else w3\<lparr>loadedmetadata := loadedmetadata w3 @ [orig]\<rparr>)
                    else restorePlayback orig w3)))"

definition finally_block :: "world \<Rightarrow> world" where
  "finally_block w = w\<lparr>isUpdating := False\<rparr>"

definition performOptimisticUpdate_start ::
  "action \<Rightarrow> (world \<Rightarrow> api_call) \<Rightarrow> options \<Rightarrow> world \<Rightarrow> world \<times> pending option" where
  "performOptimisticUpdate_start optimisticAction apiCall opts w =
     (if isUpdating w
      then (showToast ''Please wait for the current operation to complete.'' ''info'' w, None)
      else
        (let w0 = w\<lparr>isUpdating := True\<rparr>;
             originalAudio = (if playerWasReset opts then Some (audio w0) else None)
         in case optimisticAction w0 of
              (w1, Inl msg) \<Rightarrow>
                (finally_block (catch_block opts msg None originalAudio w1), None)
            | (w1, Inr undoFn) \<Rightarrow>
                (w1\<lparr>apiCalls := apiCalls w1 @ [apiCall w1]\<rparr>,
                 Some \<lparr>undoAction = undoFn, originalAudioState = originalAudio,
                       pending_options = opts\<rparr>)))"

definition success_toast :: "options \<Rightarrow> world \<Rightarrow> world" where
  "success_toast opts w =
     (case successMessage opts of
        None \<Rightarrow> w
      | Some m \<Rightarrow> if m = [] then w else showToast m ''success'' w)"

text \<open>
  The part after the \<^verbatim>\<open>await\<close>. An exception thrown by \<^verbatim>\<open>onSuccess\<close> enters the
  same \<^verbatim>\<open>catch\<close> block as a rejection of the backend call.
\<close>

definition performOptimisticUpdate_resume :: "pending \<Rightarrow> outcome \<Rightarrow> world \<Rightarrow> world" where
  "performOptimisticUpdate_resume p result w =
     (case result of
        Resolved \<Rightarrow>
          (case onSuccess (pending_options p) of
             None \<Rightarrow> finally_block (success_toast (pending_options p) w)
           | Some callback \<Rightarrow>
              (case callback w of
                 (w', None) \<Rightarrow> finally_block (success_toast (pending_options p) w')
               | (w', Some msg) \<Rightarrow>
                   finally_block
                     (catch_block (pending_options p) msg (Some (undoAction p))
                        (originalAudioState p) w')))
      | Rejected msg \<Rightarrow>
          finally_block
            (catch_block (pending_options p) msg (Some (undoAction p)) (originalAudioState p) w))"

text \<open>A whole call whose promise settles before any other handler runs.\<close>

definition performOptimisticUpdate ::
  "action \<Rightarrow> (world \<Rightarrow> api_call) \<Rightarrow> options \<Rightarrow> outcome \<Rightarrow> world \<Rightarrow> world" where
  "performOptimisticUpdate optimisticAction apiCall opts result w =
     (case performOptimisticUpdate_start optimisticAction apiCall opts w of
        (w1, None) \<Rightarrow> w1
      | (w1, Some p) \<Rightarrow> performOptimisticUpdate_resume p result w1)"

subsection \<open>The transactions of the playlist module\<close>

text \<open>Decimal digits of a number, for the template strings of the toasts.\<close>

fun digits :: "nat \<Rightarrow> nat \<Rightarrow> string" where
  "digits 0 n = []"
| "digits (Suc fuel) n =
     (if n < 10 then [char_of (48 + n)]
      else digits fuel (n div 10) @ [char_of (48 + n mod 10)])"

definition string_of_nat :: "nat \<Rightarrow> string" where
  "string_of_nat n = digits (Suc n) n"

text \<open>
  One constructor for each call of \<^verbatim>\<open>State.performOptimisticUpdate\<close>. None of the
  calls passes \<^verbatim>\<open>onSuccess\<close>.
\<close>

datatype txn =
    AddSongs string "song list"
  | RenamePlaylist string string
  | DeletePlaylist string bool
  | DeleteSongs "string list" "song option" bool
  | ReorderSongs string "string list"
  | CreatePlaylist string
  | ReorderPlaylists "string list"
  | MoveSongs string string "string list"

fun txn_action :: "txn \<Rightarrow> action" where
  "txn_action (AddSongs a songsToAdd) = addSongs_action a songsToAdd"
| "txn_action (RenamePlaylist oldName newName) = renamePlaylist_action oldName newName"
| "txn_action (DeletePlaylist nm wasPlaying) = deletePlaylist_action nm wasPlaying"
| "txn_action (DeleteSongs sel playing wasDeleted) = deleteSongs_action sel playing wasDeleted"
| "txn_action (ReorderSongs nm newPaths) = reorderSongs_action nm newPaths"
| "txn_action (CreatePlaylist newName) = createPlaylist_action newName"
| "txn_action (ReorderPlaylists ord) = reorderPlaylists_action ord"
| "txn_action (MoveSongs source target sel) = moveSongs_action source target sel"

text \<open>
  The backend call \<^verbatim>\<open>apiCall()\<close> starts. \<^verbatim>\<open>createNewPlaylist\<close> reads the playlist
  order when the call is made; \<^verbatim>\<open>deletePlaylist\<close> follows its call with
  \<^verbatim>\<open>saveActivePlaylist('Default')\<close> when the flag is set.
\<close>

fun txn_apiCall :: "txn \<Rightarrow> world \<Rightarrow> api_call" where
  "txn_apiCall (AddSongs a songsToAdd) w = Api_addSongsToPlaylist a songsToAdd"
| "txn_apiCall (RenamePlaylist oldName newName) w = Api_renamePlaylist oldName newName"
| "txn_apiCall (DeletePlaylist nm wasPlaying) w = Api_deletePlaylist nm wasPlaying"
| "txn_apiCall (DeleteSongs sel playing wasDeleted) w = Api_deleteSongs sel"
| "txn_apiCall (ReorderSongs nm newPaths) w = Api_reorderPlaylistSongs nm newPaths"
| "txn_apiCall (CreatePlaylist newName) w = Api_reorderPlaylists (playlistOrder w)"
| "txn_apiCall (ReorderPlaylists ord) w = Api_reorderPlaylists ord"
| "txn_apiCall (MoveSongs source target sel) w = Api_moveSongsToPlaylist source target sel"

fun txn_options :: "txn \<Rightarrow> options" where
  "txn_options (AddSongs a songsToAdd) =
     \<lparr>successMessage = Some (string_of_nat (length songsToAdd) @ '' song(s) added to '' @ a @ ''.''),
      errorMessagePrefix = Some ''Error adding songs'', onSuccess = None, playerWasReset = False\<rparr>"
| "txn_options (RenamePlaylist oldName newName) =
     \<lparr>successMessage = Some (''Playlist renamed to '' @ [CHR 0x22] @ newName @ [CHR 0x22]),
      errorMessagePrefix = Some ''Error renaming playlist'', onSuccess = None, playerWasReset = False\<rparr>"
| "txn_options (DeletePlaylist nm wasPlaying) =
     \<lparr>successMessage = Some (''Playlist '' @ [CHR 0x22] @ nm @ [CHR 0x22] @ '' deleted.''),
      errorMessagePrefix = Some ''Error deleting playlist'', onSuccess = None, playerWasReset = wasPlaying\<rparr>"
| "txn_options (DeleteSongs sel playing wasDeleted) =
     \<lparr>successMessage = Some (string_of_nat (length sel) @ '' song(s) deleted.''),
      errorMessagePrefix = Some ''Error deleting songs'', onSuccess = None, playerWasReset = wasDeleted\<rparr>"
| "txn_options (ReorderSongs nm newPaths) =
     \<lparr>successMessage = None,
      errorMessagePrefix = Some ''Failed to save song order'', onSuccess = None, playerWasReset = False\<rparr>"
| "txn_options (CreatePlaylist newName) =
     \<lparr>successMessage = Some (''Playlist '' @ [CHR 0x22] @ newName @ [CHR 0x22] @ '' created.''),
      errorMessagePrefix = Some ''Failed to save new playlist'', onSuccess = None, playerWasReset = False\<rparr>"
| "txn_options (ReorderPlaylists ord) =
     \<lparr>successMessage = None,
      errorMessagePrefix = Some ''Failed to save playlist order'', onSuccess = None, playerWasReset = False\<rparr>"
| "txn_options (MoveSongs source target sel) =
     \<lparr>successMessage = Some (''Moved '' @ string_of_nat (length sel) @ '' song(s) to '' @ target @ ''.''),
      errorMessagePrefix = Some ''Failed to move songs'', onSuccess = None, playerWasReset = False\<rparr>"

definition begin_txn :: "txn \<Rightarrow> world \<Rightarrow> world \<times> pending option" where
  "begin_txn t w = performOptimisticUpdate_start (txn_action t) (txn_apiCall t) (txn_options t) w"

definition run_txn :: "txn \<Rightarrow> outcome \<Rightarrow> world \<Rightarrow> world" where
  "run_txn t result w =
     performOptimisticUpdate (txn_action t) (txn_apiCall t) (txn_options t) result w"

text \<open>
  The functions that build two of the transactions. \<^verbatim>\<open>addSongsToActivePlaylist\<close>
  keeps the songs whose path the active playlist does not have yet.
  \<^verbatim>\<open>deleteSelectedSongs\<close> reads the selection when it is called and then awaits the
  confirmation dialog; \<open>selected\<close> is that selection, \<open>confirmed\<close> the dialog's answer
  and \<open>w\<close> the world when the dialog closes.
\<close>

definition nth_opt :: "'a list \<Rightarrow> int \<Rightarrow> 'a option" where
  \<comment> \<open>\<^verbatim>\<open>xs[i]\<close> for an integer \<open>i\<close>: \<^verbatim>\<open>undefined\<close> outside the array\<close>
  "nth_opt xs i = (if 0 \<le> i \<and> nat i < length xs then Some (xs ! nat i) else None)"

definition addSongsToActivePlaylist :: "song list \<Rightarrow> outcome \<Rightarrow> world \<Rightarrow> world" where
  "addSongsToActivePlaylist songObjects result w =
     (if songObjects = [] then w
      else
        (let activePlaylistName = activePlaylist w;
             activePlaylistPaths =
               (case playlists w activePlaylistName of None \<Rightarrow> [] | Some ps \<Rightarrow> ps);
             songsToAddToPlaylist =
               filter (\<lambda>s. path s \<notin> set activePlaylistPaths) songObjects
         in if songsToAddToPlaylist = []
            then showToast ''Selected song(s) already exist in this playlist.'' ''info'' w
            else run_txn (AddSongs activePlaylistName songsToAddToPlaylist) result w))"

definition deleteSelectedSongs_txn :: "string list \<Rightarrow> world \<Rightarrow> txn" where
  "deleteSelectedSongs_txn selected w =
     (let playingSong = nth_opt (getActivePlaylist_own w) (currentSongIndex w);
          wasPlayingSongDeleted =
            (case playingSong of
               None \<Rightarrow> False
             | Some s \<Rightarrow> path s \<noteq> [] \<and> path s \<in> set selected)
      in DeleteSongs selected playingSong wasPlayingSongDeleted)"

definition deleteSelectedSongs :: "string list \<Rightarrow> bool \<Rightarrow> outcome \<Rightarrow> world \<Rightarrow> world" where
  "deleteSelectedSongs selected confirmed result w =
     (if selected = [] then w
      else if \<not> confirmed then w
      else run_txn (deleteSelectedSongs_txn selected w) result w)"

text \<open>The fields of the store that the undo closures of the playlist module write back.\<close>

definition transaction_fields ::
  "world \<Rightarrow> (string \<rightharpoonup> string list) \<times> string list \<times> string \<times> song list \<times> int" where
  "transaction_fields w =
     (playlists w, playlistOrder w, activePlaylist w, playQueue w, currentSongIndex w)"

text \<open>The song cache after the songs of a list have been stored under their paths.\<close>

definition cache_with :: "song list \<Rightarrow> (string \<rightharpoonup> song) \<Rightarrow> (string \<rightharpoonup> song)" where
  "cache_with ss m = fold (\<lambda>s m. m(path s \<mapsto> s)) ss m"

subsection \<open>A small library, for concrete runs\<close>

definition song_a :: song where
  "song_a = \<lparr>path = ''a.mp3'', name = ''A'', artist = ''X'', isMissing = False,
             isPlaceholder = False, markers = None\<rparr>"

definition song_b :: song where
  "song_b = \<lparr>path = ''b.mp3'', name = ''B'', artist = ''Y'', isMissing = False,
             isPlaceholder = False, markers = None\<rparr>"

definition library :: world where
  "library =
     \<lparr>songs = [''a.mp3'' \<mapsto> song_a],
      playlists = [''Default'' \<mapsto> [''a.mp3''], ''Work'' \<mapsto> []],
      playlistOrder = [''Default'', ''Work''],
      activePlaylist = ''Default'',
      playQueue = [],
      currentSongIndex = - 1,
      isShuffling = False,
      shuffledPlaylist = [],
      shuffledIndex = - 1,
      selectedSongPaths = [''a.mp3''],
      lastClickedPath = None,
      viewMode = ''playlist'',
      isUpdating = False,
      audio = \<lparr>src = [], currentTime = 0, paused = True\<rparr>,
      readyState = 0,
      loadedmetadata = [],
      toasts = [],
      apiCalls = [],
      rejections = [],
      randoms = []\<rparr>"

subsection \<open>Transactions interleaved with other handlers\<close>

text \<open>
  The page as a transition system: the world, and the calls of
  \<^verbatim>\<open>performOptimisticUpdate\<close> suspended at their \<^verbatim>\<open>await\<close>. An event is a handler
  calling a transaction, the promise of a suspended call settling (chosen by its
  position), or any other code running. \<^verbatim>\<open>isUpdating\<close> is a variable of the state
  module that only \<^verbatim>\<open>performOptimisticUpdate\<close> assigns, so other code leaves it as
  it is.
\<close>

record system =
  the_world :: world
  in_flight :: "pending list"

datatype event = Call txn | Settle nat outcome | Other "world \<Rightarrow> world"

fun step :: "event \<Rightarrow> system \<Rightarrow> system" where
  "step (Call t) s =
     (case begin_txn t (the_world s) of
        (w1, None) \<Rightarrow> s\<lparr>the_world := w1\<rparr>
      | (w1, Some p) \<Rightarrow> \<lparr>the_world = w1, in_flight = in_flight s @ [p]\<rparr>)"
| "step (Settle i result) s =
     (if i < length (in_flight s)
      then \<lparr>the_world = performOptimisticUpdate_resume (in_flight s ! i) result (the_world s),
            in_flight = take i (in_flight s) @ drop (Suc i) (in_flight s)\<rparr>
      else s)"
| "step (Other f) s =
     s\<lparr>the_world := (f (the_world s))\<lparr>isUpdating := isUpdating (the_world s)\<rparr>\<rparr>"

definition run :: "event list \<Rightarrow> system \<Rightarrow> system" where
  "run es s = fold step es s"

definition idle :: "world \<Rightarrow> system" where
  "idle w = \<lparr>the_world = w, in_flight = []\<rparr>"

text \<open>The flag is set exactly while one call is suspended, and no second one is.\<close>

definition mutex_inv :: "system \<Rightarrow> bool" where
  "mutex_inv s \<longleftrightarrow> length (in_flight s) = (if isUpdating (the_world s) then 1 else 0)"

section \<open>The virtualized song list (module ui/virtualList, src/unnamed/part_002)\<close>

text \<open>
  A pooled \<^verbatim>\<open>li\<close> element: its \<^verbatim>\<open>translateY\<close> transform in pixels (none on a new
  element), its \<^verbatim>\<open>dataset\<close> entries (the memo of what was last painted; the strings
  \<^verbatim>\<open>'true'\<close> and \<^verbatim>\<open>'false'\<close> are booleans here), the text of its two spans, its
  classes and \<^verbatim>\<open>draggable\<close>.
\<close>

record node =
  translateY :: "int option"
  dataset_path :: "string option"
  dataset_loading :: "bool option"
  dataset_title :: "string option"
  dataset_artist :: "string option"
  dataset_playing :: "bool option"
  dataset_missing :: "bool option"
  dataset_selected :: "bool option"
  title_text :: string
  artist_text :: string
  class_is_loading :: bool
  class_playing :: bool
  class_missing :: bool
  class_selected :: bool
  class_hidden :: bool
  draggable :: bool

text \<open>
  The module's \<^verbatim>\<open>vList\<close> object and variables, with the container's \<^verbatim>\<open>scrollTop\<close>
  (a number, possibly fractional) and \<^verbatim>\<open>clientHeight\<close> (an integer). The set
  \<^verbatim>\<open>pendingPathsToFetch\<close> is kept in insertion order, the order \<^verbatim>\<open>Array.from\<close>
  reads it in. \<open>fetch_timer\<close> says whether the timer of the debounced
  \<^verbatim>\<open>processPendingFetches\<close> is running; \<open>fetch_batches\<close> holds, for each call of
  \<^verbatim>\<open>fetchSongData\<close> suspended at its \<^verbatim>\<open>await\<close>, its \<^verbatim>\<open>newPaths\<close>; and
  \<open>getSongsByPaths_calls\<close> is the log of backend requests.
\<close>

record vlist =
  visibleNodes :: "node list"
  dataSource :: "song list"
  scrollTop :: rat
  clientHeight :: nat
  pathsCurrentlyFetching :: "string set"
  pendingPathsToFetch :: "string list"
  isRenderScheduled :: bool
  fetch_timer :: bool
  fetch_batches :: "string list list"
  getSongsByPaths_calls :: "string list list"

definition ITEM_HEIGHT :: int where "ITEM_HEIGHT = 46"
definition BUFFER_ITEMS :: int where "BUFFER_ITEMS = 5"

text \<open>\<^verbatim>\<open>Set.prototype.add\<close> on an insertion-ordered set.\<close>

definition set_add :: "'a \<Rightarrow> 'a list \<Rightarrow> 'a list" where
  "set_add x xs = (if x \<in> set xs then xs else xs @ [x])"

text \<open>The element \<^verbatim>\<open>document.createElement('li')\<close> gives, made draggable.\<close>

definition new_li :: node where
  "new_li =
     \<lparr>translateY = None, dataset_path = None, dataset_loading = None, dataset_title = None,
      dataset_artist = None, dataset_playing = None, dataset_missing = None,
      dataset_selected = None, title_text = [], artist_text = [], class_is_loading = False,
      class_playing = False, class_missing = False, class_selected = False,
      class_hidden = False, draggable = True\<rparr>"

text \<open>The four indices computed at the top of \<^verbatim>\<open>renderVisibleSongs\<close>.\<close>

definition startIndex :: "vlist \<Rightarrow> int" where
  "startIndex v = \<lfloor>scrollTop v / of_int ITEM_HEIGHT\<rfloor>"

definition numVisibleItems :: "vlist \<Rightarrow> int" where
  "numVisibleItems v = \<lceil>of_nat (clientHeight v) / (of_int ITEM_HEIGHT :: rat)\<rceil>"

definition renderStartIndex :: "vlist \<Rightarrow> int" where
  "renderStartIndex v = max 0 (startIndex v - BUFFER_ITEMS)"

definition renderEndIndex :: "vlist \<Rightarrow> int" where
  "renderEndIndex v =
     min (int (length (dataSource v)) - 1) (startIndex v + numVisibleItems v + BUFFER_ITEMS)"

text \<open>\<^verbatim>\<open>while (vList.visibleNodes.length <= renderEndIndex - renderStartIndex)\<close>\<close>

function grow_pool :: "int \<Rightarrow> node list \<Rightarrow> node list" where
  "grow_pool n nodes =
     (if int (length nodes) \<le> n then grow_pool n (nodes @ [new_li]) else nodes)"
  by pat_completeness auto
termination
  by (relation "measure (\<lambda>(n, nodes). nat (n + 1 - int (length nodes)))") auto

text \<open>
  \<^verbatim>\<open>s || d\<close> on strings.
\<close>

definition falsy_or :: "string \<Rightarrow> string \<Rightarrow> string" where
  "falsy_or s d = (if s = [] then d else s)"

text \<open>The blocks of the loop body that repaint only what differs from the memo.\<close>

definition paint_loading :: "bool \<Rightarrow> node \<Rightarrow> node" where
  "paint_loading isLoading nd =
     (if dataset_loading nd \<noteq> Some isLoading
      then (let a = nd\<lparr>class_is_loading := isLoading, draggable := \<not> isLoading\<rparr>;
                b = (if isLoading
                     then a\<lparr>title_text := [], artist_text := [],
                             dataset_title := None, dataset_artist := None\<rparr>
                     else a)
            in b\<lparr>dataset_loading := Some isLoading\<rparr>)
      else nd)"

definition paint_title :: "string \<Rightarrow> node \<Rightarrow> node" where
  "paint_title newTitle nd =
     (if dataset_title nd \<noteq> Some newTitle
      then nd\<lparr>title_text := newTitle, dataset_title := Some newTitle\<rparr> else nd)"

definition paint_artist :: "string \<Rightarrow> node \<Rightarrow> node" where
  "paint_artist newArtist nd =
     (if dataset_artist nd \<noteq> Some newArtist
      then nd\<lparr>artist_text := newArtist, dataset_artist := Some newArtist\<rparr> else nd)"

definition paint_playing :: "bool \<Rightarrow> node \<Rightarrow> node" where
  "paint_playing isPlaying nd =
     (if dataset_playing nd \<noteq> Some isPlaying
      then nd\<lparr>class_playing := isPlaying, dataset_playing := Some isPlaying\<rparr> else nd)"

definition paint_missing :: "bool \<Rightarrow> node \<Rightarrow> node" where
  "paint_missing missing nd =
     (if dataset_missing nd \<noteq> Some missing
      then nd\<lparr>class_missing := missing, dataset_missing := Some missing\<rparr> else nd)"

definition paint_selected :: "bool \<Rightarrow> node \<Rightarrow> node" where
  "paint_selected isSelected nd =
     (if dataset_selected nd \<noteq> Some isSelected
      then nd\<lparr>class_selected := isSelected, dataset_selected := Some isSelected\<rparr> else nd)"

text \<open>
  The body of the \<^verbatim>\<open>for\<close> loop for row \<open>i\<close>, whose data is \<open>songData\<close>, on the pooled
  element \<open>nd\<close>: the element as it is left, and whether the row's path goes into
  \<^verbatim>\<open>pendingPathsToFetch\<close>.
\<close>

definition render_row ::
  "(string \<rightharpoonup> song) \<Rightarrow> string option \<Rightarrow> string list \<Rightarrow> int \<Rightarrow> song \<Rightarrow> node \<Rightarrow> node \<times> bool" where
  "render_row songCache playingSongPath selected i songData nd =
     (let n1 = nd\<lparr>translateY := Some (i * ITEM_HEIGHT), dataset_path := Some (path songData)\<rparr>;
          song = songCache (path songData);
          isLoading = (song = None);
          n2 = paint_loading isLoading n1
      in case song of
           None \<Rightarrow> (n2\<lparr>class_hidden := False\<rparr>, True)
         | Some sg \<Rightarrow>
            (let isPlaying = (Some (path sg) = playingSongPath);
                 isSelected = (path sg \<in> set selected);
                 isMissing = isMissing sg;
                 newTitle = falsy_or (name sg) ''Untitled'';
                 newArtist = falsy_or (artist sg) ''Unknown Artist'';
                 n3 = paint_selected isSelected
                        (paint_missing isMissing
                          (paint_playing isPlaying
                            (paint_artist newArtist (paint_title newTitle n2))))
             in (n3\<lparr>class_hidden := False\<rparr>, False)))"

text \<open>
  \<^verbatim>\<open>for (let i = renderStartIndex; i <= renderEndIndex; i++, nodeIndex++)\<close>. Reading
  \<^verbatim>\<open>songData.path\<close> of a row outside the data source, or \<^verbatim>\<open>node.style\<close> of an element
  outside the pool, throws a TypeError: the loop's result is then \<open>None\<close>. Otherwise
  it is the pool, the pending set and the final \<^verbatim>\<open>nodeIndex\<close>.
\<close>

function render_rows ::
  "(string \<rightharpoonup> song) \<Rightarrow> string option \<Rightarrow> string list \<Rightarrow> song list \<Rightarrow> int \<Rightarrow> int \<Rightarrow> nat
     \<Rightarrow> node list \<Rightarrow> string list \<Rightarrow> (node list \<times> string list \<times> nat) option" where
  "render_rows songCache playing selected ds i e nodeIndex nodes pend =
     (if i \<le> e
      then (if 0 \<le> i \<and> nat i < length ds \<and> nodeIndex < length nodes
            then (let songData = ds ! nat i;
                      (nd, loading) =
                        render_row songCache playing selected i songData (nodes ! nodeIndex)
                  in render_rows songCache playing selected ds (i + 1) e (Suc nodeIndex)
                       (nodes[nodeIndex := nd])
                       (if loading then set_add (path songData) pend else pend))
            else None)
      else Some (nodes, pend, nodeIndex))"
  by pat_completeness auto
termination
  by (relation "measure (\<lambda>(c, p, s, ds, i, e, k, nodes, pend). nat (e + 1 - i))") auto

text \<open>\<^verbatim>\<open>for (let i = nodeIndex; i < vList.visibleNodes.length; i++)\<close>: hide the rest.\<close>

definition hide_from :: "nat \<Rightarrow> node list \<Rightarrow> node list" where
  "hide_from k nodes = take k nodes @ map (\<lambda>nd. nd\<lparr>class_hidden := True\<rparr>) (drop k nodes)"

definition renderVisibleSongs :: "world \<Rightarrow> vlist \<Rightarrow> vlist option" where
  "renderVisibleSongs w v =
     (let v0 = v\<lparr>isRenderScheduled := False\<rparr>;
          playingSongPath =
            map_option path (nth_opt (getActivePlaylist_own w) (currentSongIndex w));
          songCache = songs w;
          pool = grow_pool (renderEndIndex v0 - renderStartIndex v0) (visibleNodes v0)
      in case render_rows songCache playingSongPath (selectedSongPaths w) (dataSource v0)
                (renderStartIndex v0) (renderEndIndex v0) 0 pool (pendingPathsToFetch v0) of
           None \<Rightarrow> None
         | Some (nodes, pend, nodeIndex) \<Rightarrow>
             Some (v0\<lparr>visibleNodes := hide_from nodeIndex nodes,
                      pendingPathsToFetch := pend,
                      fetch_timer := True\<rparr>))"



subsection \<open>Lazy fetching of song data\<close>

text \<open>
  \<^verbatim>\<open>fetchSongData\<close> up to its \<^verbatim>\<open>await\<close>: the paths not in flight are marked in flight
  and requested from the backend in one call; the call stays suspended with its
  \<^verbatim>\<open>newPaths\<close>. \<open>pathsToRequest\<close> is a set, read in insertion order.
\<close>

definition fetchSongData_start :: "string list \<Rightarrow> vlist \<Rightarrow> vlist" where
  "fetchSongData_start pathsToRequest v =
     (if pathsToRequest = [] then v
      else
        (let newPaths = filter (\<lambda>p. p \<notin> pathsCurrentlyFetching v) pathsToRequest
         in if newPaths = [] then v
            else v\<lparr>pathsCurrentlyFetching := pathsCurrentlyFetching v \<union> set newPaths,
                   getSongsByPaths_calls := getSongsByPaths_calls v @ [newPaths],
                   fetch_batches := fetch_batches v @ [newPaths]\<rparr>))"

text \<open>How the promise of \<^verbatim>\<open>Api.getSongsByPaths\<close> settles.\<close>

datatype fetch_result = Fetched "string \<rightharpoonup> song" | Failed string

text \<open>
  The rest of \<^verbatim>\<open>fetchSongData\<close>, for the suspended call at position \<open>i\<close>: on success
  the songs go into the cache and the list is rendered again; an exception (the
  rejection, or one thrown while rendering) is logged and dropped; the \<^verbatim>\<open>finally\<close>
  block takes the call's \<^verbatim>\<open>newPaths\<close> out of the in-flight set.
\<close>

definition fetchSongData_resume ::
  "nat \<Rightarrow> fetch_result \<Rightarrow> world \<times> vlist \<Rightarrow> world \<times> vlist" where
  "fetchSongData_resume i result wv =
     (case wv of (w, v) \<Rightarrow>
        if i < length (fetch_batches v)
        then
          (let newPaths = fetch_batches v ! i;
               v0 = v\<lparr>fetch_batches := take i (fetch_batches v) @ drop (Suc i) (fetch_batches v)\<rparr>;
               (w1, v1) =
                 (case result of
                    Fetched songsMap \<Rightarrow>
                      (let w' = addSongsToCache songsMap w
                       in (w', case renderVisibleSongs w' v0 of None \<Rightarrow> v0 | Some v' \<Rightarrow> v'))
                  | Failed msg \<Rightarrow> (w, v0))
           in (w1, v1\<lparr>pathsCurrentlyFetching := pathsCurrentlyFetching v1 - set newPaths\<rparr>))
        else (w, v))"

text \<open>
  The debounced \<^verbatim>\<open>processPendingFetches\<close>, when its timer fires: the pending set is
  copied and cleared, and the copy is fetched.
\<close>

definition processPendingFetches :: "vlist \<Rightarrow> vlist" where
  "processPendingFetches v =
     (let v0 = v\<lparr>fetch_timer := False\<rparr>
      in if pendingPathsToFetch v0 = [] then v0
         else (let pathsToFetch = pendingPathsToFetch v0
               in fetchSongData_start pathsToFetch (v0\<lparr>pendingPathsToFetch := []\<rparr>)))"

text \<open>
  What can happen to the list, one event at a time: the user scrolls (the handler
  schedules a render if none is scheduled), the container is resized, a new data
  source is set, \<^verbatim>\<open>renderVisibleSongs\<close> runs (from the animation frame or called
  directly), the debounce timer fires, a suspended fetch settles, or other code
  writes to the store.
\<close>

datatype list_event =
    Scroll rat
  | Resize nat
  | SetDataSource "song list"
  | Render
  | TimerFires
  | FetchSettles nat fetch_result
  | StoreWrite "world \<Rightarrow> world"

fun list_step :: "list_event \<Rightarrow> world \<times> vlist \<Rightarrow> world \<times> vlist" where
  "list_step (Scroll y) (w, v) = (w, v\<lparr>scrollTop := y, isRenderScheduled := True\<rparr>)"
| "list_step (Resize h) (w, v) = (w, v\<lparr>clientHeight := h\<rparr>)"
| "list_step (SetDataSource ds) (w, v) = (w, v\<lparr>dataSource := ds\<rparr>)"
| "list_step Render (w, v) = (w, case renderVisibleSongs w v of None \<Rightarrow> v | Some v' \<Rightarrow> v')"
| "list_step TimerFires (w, v) = (w, if fetch_timer v then processPendingFetches v else v)"
| "list_step (FetchSettles i result) (w, v) = fetchSongData_resume i result (w, v)"
| "list_step (StoreWrite f) (w, v) = (f w, v)"

definition list_run :: "list_event list \<Rightarrow> world \<times> vlist \<Rightarrow> world \<times> vlist" where
  "list_run es wv = fold list_step es wv"

text \<open>A list with nothing fetched or pending yet.\<close>

definition quiet :: "vlist \<Rightarrow> bool" where
  "quiet v \<longleftrightarrow>
     pathsCurrentlyFetching v = {} \<and> pendingPathsToFetch v = [] \<and> fetch_batches v = []"

text \<open>
  The paths of the suspended fetches are all different, they are exactly the
  in-flight set, and the pending set has no duplicates.
\<close>

definition fetch_inv :: "vlist \<Rightarrow> bool" where
  "fetch_inv v \<longleftrightarrow>
     distinct (concat (fetch_batches v))
     \<and> pathsCurrentlyFetching v = set (concat (fetch_batches v))
     \<and> distinct (pendingPathsToFetch v)"

text \<open>The backend calls a step added to the log.\<close>

definition new_calls :: "vlist \<Rightarrow> vlist \<Rightarrow> string list list" where
  "new_calls v v' = drop (length (getSongsByPaths_calls v)) (getSongsByPaths_calls v')"

text \<open>A list of three songs in a viewport of two rows, and one of 10,000 rows.\<close>

definition song_c :: song where
  "song_c = \<lparr>path = ''c.mp3'', name = ''C'', artist = ''Z'', isMissing = False,
             isPlaceholder = False, markers = None\<rparr>"

definition short_list :: vlist where
  "short_list =
     \<lparr>visibleNodes = [], dataSource = [song_a, song_b, song_c], scrollTop = 0,
      clientHeight = 92, pathsCurrentlyFetching = {}, pendingPathsToFetch = [],
      isRenderScheduled = False, fetch_timer = False, fetch_batches = [],
      getSongsByPaths_calls = []\<rparr>"


text \<open>Two frames with the debounce timer firing after each.\<close>

definition scroll_run :: "list_event list" where
  "scroll_run = [Render, TimerFires, Render, TimerFires]"


section \<open>The render scheduler (module Main, src/unnamed/part_005)\<close>

text \<open>
  The keys of the \<^verbatim>\<open>dirty\<close> object, and what the frame callback can draw. The object
  is a function from its keys to booleans; the argument of \<^verbatim>\<open>scheduleRender\<close> is an
  object with some of the keys. \<open>frames\<close> counts the callbacks handed to
  \<^verbatim>\<open>requestAnimationFrame\<close> that have not run yet.
\<close>

datatype flag = SongList | SongListStyles | Playlists | Player | Header | ShuffleRepeat | Marker

datatype draw =
    RenderSongList | UpdateSongListUI | RenderPlaylists | UpdateActiveListHeader
  | UpdateSearchUI | UpdatePlayerInfo | ResetPlayerUI | BroadcastStateChange
  | UpdateShuffleButtonUI | UpdateRepeatButtonUI | UpdateMarkerSelectionUI

record scheduler =
  dirty :: "flag \<Rightarrow> bool"
  isRenderScheduled_main :: bool
  frames :: nat

text \<open>\<^verbatim>\<open>Object.assign(dirty, updates)\<close> writes the value of every key \<open>updates\<close> has.\<close>

definition scheduleRender :: "(flag \<rightharpoonup> bool) \<Rightarrow> scheduler \<Rightarrow> scheduler" where
  "scheduleRender updates s =
     (let s1 = s\<lparr>dirty := (\<lambda>k. case updates k of None \<Rightarrow> dirty s k | Some b \<Rightarrow> b)\<rparr>
      in if \<not> isRenderScheduled_main s1
         then s1\<lparr>isRenderScheduled_main := True, frames := frames s1 + 1\<rparr>
         else s1)"

text \<open>Every call of \<^verbatim>\<open>scheduleRender\<close> in the module passes \<^verbatim>\<open>true\<close> for each key it names.\<close>

definition marks_only :: "(flag \<rightharpoonup> bool) \<Rightarrow> bool" where
  "marks_only updates \<longleftrightarrow> (\<forall>k. updates k \<noteq> Some False)"

text \<open>
  \<^verbatim>\<open>performScheduledRenders\<close> is an \<^verbatim>\<open>async\<close> function with two \<^verbatim>\<open>await\<close>s:
  \<^verbatim>\<open>await UI.renderSongList()\<close> and \<^verbatim>\<open>await UI.updatePlayerInfo(song)\<close>. At each the
  callback is suspended and other handlers run, which may call \<^verbatim>\<open>scheduleRender\<close>;
  every \<^verbatim>\<open>if (dirty.key)\<close> reads the flag as it is when the statement is reached.
  \<^verbatim>\<open>renderSongList\<close> awaits \<^verbatim>\<open>Api.searchAllSongs\<close> or \<^verbatim>\<open>Api.searchInPlaylist\<close> when the
  search box has text, with no \<^verbatim>\<open>try\<close> around it, so its promise can reject;
  \<^verbatim>\<open>updatePlayerInfo\<close> awaits \<^verbatim>\<open>Api.getCoverData\<close> when the cover is not cached.
  The function has no \<^verbatim>\<open>try\<close> either: a rejection at an \<^verbatim>\<open>await\<close> ends the callback
  there.

  A run of the callback is the part up to the first \<^verbatim>\<open>await\<close> it meets, and a resumed
  part for each \<^verbatim>\<open>await\<close>. Each part gives what it draws, in order (a call that is
  awaited is listed when it starts), the scheduler it leaves, and the \<^verbatim>\<open>await\<close> it
  is suspended at, if any. \<open>hasSong\<close> says whether the current song index points at
  a song of the active playlist when \<^verbatim>\<open>if (dirty.player)\<close> is reached.
\<close>

datatype await = Await_renderSongList | Await_updatePlayerInfo

text \<open>The last statements: \<^verbatim>\<open>isRenderScheduled = false\<close> and the loop over the keys.\<close>

definition reset_flags :: "scheduler \<Rightarrow> scheduler" where
  "reset_flags s = s\<lparr>isRenderScheduled_main := False, dirty := (\<lambda>k. False)\<rparr>"

text \<open>From \<^verbatim>\<open>if (dirty.shuffleRepeat)\<close> to the end.\<close>

definition renders_after_player :: "scheduler \<Rightarrow> draw list \<times> scheduler \<times> await option" where
  "renders_after_player s =
     ((if dirty s ShuffleRepeat then [UpdateShuffleButtonUI, UpdateRepeatButtonUI] else [])
      @ (if dirty s Marker then [UpdateMarkerSelectionUI] else []),
      reset_flags s, None)"

text \<open>The draws of one part followed by the part that comes next.\<close>

definition and_then ::
  "draw list \<Rightarrow> draw list \<times> scheduler \<times> await option \<Rightarrow> draw list \<times> scheduler \<times> await option"
  where
  "and_then ds r = (case r of (ds', s', a) \<Rightarrow> (ds @ ds', s', a))"

text \<open>From \<^verbatim>\<open>if (dirty.playlists)\<close> on.\<close>

definition renders_after_songList ::
  "bool \<Rightarrow> scheduler \<Rightarrow> draw list \<times> scheduler \<times> await option" where
  "renders_after_songList hasSong s =
     and_then
       ((if dirty s Playlists then [RenderPlaylists] else [])
        @ (if dirty s Header then [UpdateActiveListHeader, UpdateSearchUI] else []))
       (if dirty s Player
        then (if hasSong then ([UpdatePlayerInfo], s, Some Await_updatePlayerInfo)
              else and_then [ResetPlayerUI, BroadcastStateChange] (renders_after_player s))
        else renders_after_player s)"

definition performScheduledRenders_start ::
  "bool \<Rightarrow> scheduler \<Rightarrow> draw list \<times> scheduler \<times> await option" where
  "performScheduledRenders_start hasSong s =
     (if dirty s SongList then ([RenderSongList], s, Some Await_renderSongList)
      else and_then (if dirty s SongListStyles then [UpdateSongListUI] else [])
             (renders_after_songList hasSong s))"

text \<open>
  The callback resumed at \<open>a\<close> when the awaited promise has settled. After
  \<^verbatim>\<open>await UI.updatePlayerInfo(song)\<close> comes the broadcast of the \<^verbatim>\<open>if (dirty.player)\<close>
  block.
\<close>

definition performScheduledRenders_resume ::
  "await \<Rightarrow> outcome \<Rightarrow> bool \<Rightarrow> scheduler \<Rightarrow> draw list \<times> scheduler \<times> await option" where
  "performScheduledRenders_resume a result hasSong s =
     (case result of
        Rejected msg \<Rightarrow> ([], s, None)
      | Resolved \<Rightarrow>
         (case a of
            Await_renderSongList \<Rightarrow> renders_after_songList hasSong s
          | Await_updatePlayerInfo \<Rightarrow> and_then [BroadcastStateChange] (renders_after_player s)))"

text \<open>
  The page around the scheduler: the callbacks suspended at an \<^verbatim>\<open>await\<close> and what has
  been drawn so far. An event is a handler calling \<^verbatim>\<open>scheduleRender\<close>, the browser
  running the next callback handed to \<^verbatim>\<open>requestAnimationFrame\<close> (nothing happens when
  none is waiting), or the promise a suspended callback awaits settling.
\<close>

record page =
  sched :: scheduler
  suspended :: "await list"
  drawn :: "draw list"

datatype page_event =
    ScheduleRender "flag \<rightharpoonup> bool"
  | AnimationFrame bool
  | Settled nat outcome bool

definition after_part :: "page \<Rightarrow> draw list \<times> scheduler \<times> await option \<Rightarrow> page" where
  "after_part pg r =
     (case r of (ds, s', a) \<Rightarrow>
        \<lparr>sched = s',
         suspended = suspended pg @ (case a of None \<Rightarrow> [] | Some x \<Rightarrow> [x]),
         drawn = drawn pg @ ds\<rparr>)"

fun page_step :: "page_event \<Rightarrow> page \<Rightarrow> page" where
  "page_step (ScheduleRender updates) pg = pg\<lparr>sched := scheduleRender updates (sched pg)\<rparr>"
| "page_step (AnimationFrame hasSong) pg =
     (if frames (sched pg) = 0 then pg
      else after_part pg
             (performScheduledRenders_start hasSong
                ((sched pg)\<lparr>frames := frames (sched pg) - 1\<rparr>)))"
| "page_step (Settled i result hasSong) pg =
     (if i < length (suspended pg)
      then after_part
             (pg\<lparr>suspended := take i (suspended pg) @ drop (Suc i) (suspended pg)\<rparr>)
             (performScheduledRenders_resume (suspended pg ! i) result hasSong (sched pg))
      else pg)"

definition page_run :: "page_event list \<Rightarrow> page \<Rightarrow> page" where
  "page_run es pg = fold page_step es pg"

definition idle_scheduler :: scheduler where
  "idle_scheduler = \<lparr>dirty = (\<lambda>k. False), isRenderScheduled_main = False, frames = 0\<rparr>"

definition idle_page :: page where
  "idle_page = \<lparr>sched = idle_scheduler, suspended = [], drawn = []\<rparr>"

section \<open>Markers (module Player, src/unnamed/part_003)\<close>

text \<open>
  A timestamp is a JavaScript number, a double: a rational is used for its value,
  and the subtraction of the language is the exact difference rounded to the nearest
  double, a tie going to the even significand. \<open>binary_exponent x\<close> is the \<open>e\<close> with
  \<open>2 ^ e \<le> x < 2 ^ (e + 1)\<close> for a positive \<open>x\<close>, found from the bit lengths of its
  numerator and denominator; a double has 53 significant bits, so the doubles around
  \<open>x\<close> are the multiples of \<open>2 ^ (e - 52)\<close>. The difference of two timestamps between 0
  and the duration of a song does not overflow, and a difference below the normal
  range is a double already, so the exponent needs no bound here.
\<close>

definition pow2 :: "int \<Rightarrow> rat" where
  "pow2 e = (if 0 \<le> e then 2 ^ nat e else 1 / 2 ^ nat (- e))"

definition binary_exponent :: "rat \<Rightarrow> int" where
  "binary_exponent x =
     (case quotient_of x of (a, b) \<Rightarrow>
        (let d = bitlen a - bitlen b in if pow2 d \<le> x then d else d - 1))"

definition round_half_even :: "rat \<Rightarrow> int" where
  "round_half_even m =
     (let f = \<lfloor>m\<rfloor>; d = m - of_int f
      in if d < 1 / 2 then f else if 1 / 2 < d then f + 1 else if even f then f else f + 1)"

definition to_double :: "rat \<Rightarrow> rat" where
  "to_double x =
     (if x = 0 then 0
      else (let q = pow2 (binary_exponent \<bar>x\<bar> - 52)
            in sgn x * of_int (round_half_even (\<bar>x\<bar> / q)) * q))"

text \<open>\<^verbatim>\<open>a - b\<close> on numbers.\<close>

definition double_minus :: "rat \<Rightarrow> rat \<Rightarrow> rat" where
  "double_minus a b = to_double (a - b)"

text \<open>
  The handlers work on \<^verbatim>\<open>currentSong\<close>, the song of the active playlist at the current
  song index, and assign its \<^verbatim>\<open>markers\<close>. \<^verbatim>\<open>Array.prototype.sort\<close> with the comparator
  \<^verbatim>\<open>(a, b) => a.timestamp - b.timestamp\<close> is a stable sort by timestamp: rounding a
  difference keeps its sign, and a difference of two doubles that is not zero does
  not round to zero.
\<close>

text \<open>
  The click handler of the add-marker button (and, with the timestamp taken from the
  click position, the double-click handler of the seek bar), once a song is playing:
  \<open>newTimestamp\<close> is the player's position, \<open>newId\<close> the string
  \<^verbatim>\<open>marker_${Date.now()}\<close>. The result is the song and the timestamps sent to
  \<^verbatim>\<open>Api.saveMarkers\<close>, if any.
\<close>

definition addMarker :: "rat \<Rightarrow> string \<Rightarrow> song \<Rightarrow> song \<times> rat list option" where
  "addMarker newTimestamp newId currentSong =
     (let ms = (case markers currentSong of None \<Rightarrow> [] | Some ms \<Rightarrow> ms);
          s1 = currentSong\<lparr>markers := Some ms\<rparr>
      in if list_ex (\<lambda>m. \<bar>double_minus (timestamp m) newTimestamp\<bar> < 1 / 2) ms
         then (s1, None)
         else (let ms' = sort_key timestamp
                           (ms @ [\<lparr>marker_id = newId, timestamp = newTimestamp\<rparr>])
               in (s1\<lparr>markers := Some ms'\<rparr>, Some (map timestamp ms'))))"

text \<open>\<^verbatim>\<open>markerToUpdate.timestamp = newTimestamp\<close> on the first marker with the id.\<close>

fun set_timestamp :: "string \<Rightarrow> rat \<Rightarrow> marker list \<Rightarrow> marker list" where
  "set_timestamp markerId t [] = []"
| "set_timestamp markerId t (m # ms) =
     (if marker_id m = markerId then m\<lparr>timestamp := t\<rparr> # ms
      else m # set_timestamp markerId t ms)"

text \<open>
  \<^verbatim>\<open>updateMarkerTimestamp\<close> and \<^verbatim>\<open>deleteMarker\<close>: each up to its \<^verbatim>\<open>await\<close> (the
  optimistic update), and as a whole for a given outcome of \<^verbatim>\<open>Api.saveMarkers\<close>; a
  rejection puts the copy of the original markers back.
\<close>

definition updateMarkerTimestamp_optimistic :: "string \<Rightarrow> rat \<Rightarrow> song \<Rightarrow> song" where
  "updateMarkerTimestamp_optimistic markerId newTimestamp currentSong =
     (if markerId = [] then currentSong
      else case markers currentSong of
             None \<Rightarrow> currentSong
           | Some ms \<Rightarrow>
              (case find (\<lambda>m. marker_id m = markerId) ms of
                 None \<Rightarrow> currentSong
               | Some markerToUpdate \<Rightarrow>
                   currentSong\<lparr>markers :=
                     Some (sort_key timestamp (set_timestamp markerId newTimestamp ms))\<rparr>))"

definition updateMarkerTimestamp :: "string \<Rightarrow> rat \<Rightarrow> outcome \<Rightarrow> song \<Rightarrow> song" where
  "updateMarkerTimestamp markerId newTimestamp result currentSong =
     (if markerId = [] then currentSong
      else case markers currentSong of
             None \<Rightarrow> currentSong
           | Some ms \<Rightarrow>
              (let originalMarkers = ms
               in case find (\<lambda>m. marker_id m = markerId) ms of
                    None \<Rightarrow> currentSong
                  | Some markerToUpdate \<Rightarrow>
                     (let optimistic = currentSong\<lparr>markers :=
                            Some (sort_key timestamp (set_timestamp markerId newTimestamp ms))\<rparr>
                      in case result of
                           Resolved \<Rightarrow> optimistic
                         | Rejected msg \<Rightarrow> optimistic\<lparr>markers := Some originalMarkers\<rparr>)))"

definition deleteMarker_optimistic :: "string \<Rightarrow> song \<Rightarrow> song" where
  "deleteMarker_optimistic markerId currentSong =
     (if markerId = [] then currentSong
      else case markers currentSong of
             None \<Rightarrow> currentSong
           | Some ms \<Rightarrow>
               currentSong\<lparr>markers := Some (filter (\<lambda>m. marker_id m \<noteq> markerId) ms)\<rparr>)"

definition deleteMarker :: "string \<Rightarrow> outcome \<Rightarrow> song \<Rightarrow> song" where
  "deleteMarker markerId result currentSong =
     (if markerId = [] then currentSong
      else case markers currentSong of
             None \<Rightarrow> currentSong
           | Some ms \<Rightarrow>
              (let originalMarkers = ms;
                   optimistic = currentSong\<lparr>markers :=
                     Some (filter (\<lambda>m. marker_id m \<noteq> markerId) ms)\<rparr>
               in case result of
                    Resolved \<Rightarrow> optimistic
                  | Rejected msg \<Rightarrow> optimistic\<lparr>markers := Some originalMarkers\<rparr>))"

text \<open>The marker list of a song (\<^verbatim>\<open>undefined\<close> read as no markers).\<close>

definition markers_of :: "song \<Rightarrow> marker list" where
  "markers_of s = (case markers s of None \<Rightarrow> [] | Some ms \<Rightarrow> ms)"

definition sorted_markers :: "marker list \<Rightarrow> bool" where
  "sorted_markers ms \<longleftrightarrow> sorted (map timestamp ms)"

text \<open>
  No two markers of the list are closer than half a second, measured as the insertion
  handlers measure it: by the difference the language computes.
\<close>

fun spaced :: "marker list \<Rightarrow> bool" where
  "spaced [] = True"
| "spaced (m # ms) =
     (list_all (\<lambda>m'. \<bar>double_minus (timestamp m) (timestamp m')\<bar> \<ge> 1 / 2) ms \<and> spaced ms)"

text \<open>A song with markers at 1 and 5 seconds.\<close>

definition marked_song :: song where
  "marked_song = song_a\<lparr>markers :=
     Some [\<lparr>marker_id = ''m1'', timestamp = 1\<rparr>, \<lparr>marker_id = ''m2'', timestamp = 5\<rparr>]\<rparr>"

text \<open>
  The numbers written \<^verbatim>\<open>0.1\<close> and \<^verbatim>\<open>0.6\<close>, and a song with one marker at the
  first.
\<close>

definition double_0_1 :: rat where
  "double_0_1 = to_double (1 / 10)"

definition double_0_6 :: rat where
  "double_0_6 = to_double (6 / 10)"

definition song_marked_at_0_1 :: song where
  "song_marked_at_0_1 = song_a\<lparr>markers := Some [\<lparr>marker_id = ''m1'', timestamp = double_0_1\<rparr>]\<rparr>"

section \<open>Theorems\<close>

subsection \<open>Publish/subscribe\<close>








subsection \<open>Optimistic transactions: rollback\<close>

lemma generateShuffledPlaylist_writes:
  "\<exists>r i s. generateShuffledPlaylist w = w\<lparr>randoms := r, shuffledIndex := i, shuffledPlaylist := s\<rparr>"
  unfolding generateShuffledPlaylist_def Let_def setShuffledPlaylist_def setShuffledIndex_def
  by (auto split: prod.splits)

lemma generateShuffledPlaylist_fields [simp]: 
  "songs (generateShuffledPlaylist w) = songs w"
  "isUpdating (generateShuffledPlaylist w) = isUpdating w"
  "audio (generateShuffledPlaylist w) = audio w"
  "isShuffling (generateShuffledPlaylist w) = isShuffling w"
  "playlists (generateShuffledPlaylist w) = playlists w"
  "playlistOrder (generateShuffledPlaylist w) = playlistOrder w"
  "activePlaylist (generateShuffledPlaylist w) = activePlaylist w"
  "playQueue (generateShuffledPlaylist w) = playQueue w"
  "currentSongIndex (generateShuffledPlaylist w) = currentSongIndex w"
  "selectedSongPaths (generateShuffledPlaylist w) = selectedSongPaths w"
  "toasts (generateShuffledPlaylist w) = toasts w"
  "apiCalls (generateShuffledPlaylist w) = apiCalls w"
  using generateShuffledPlaylist_writes[of w] by auto

lemma reshuffle_fields [simp]: 
  "songs (reshuffle_if_shuffling w) = songs w"
  "isUpdating (reshuffle_if_shuffling w) = isUpdating w"
  "audio (reshuffle_if_shuffling w) = audio w"
  "isShuffling (reshuffle_if_shuffling w) = isShuffling w"
  "playlists (reshuffle_if_shuffling w) = playlists w"
  "playlistOrder (reshuffle_if_shuffling w) = playlistOrder w"
  "activePlaylist (reshuffle_if_shuffling w) = activePlaylist w"
  "playQueue (reshuffle_if_shuffling w) = playQueue w"
  "currentSongIndex (reshuffle_if_shuffling w) = currentSongIndex w"
  "selectedSongPaths (reshuffle_if_shuffling w) = selectedSongPaths w"
  "toasts (reshuffle_if_shuffling w) = toasts w"
  "apiCalls (reshuffle_if_shuffling w) = apiCalls w"
  by (auto simp: reshuffle_if_shuffling_def)

lemmas setters = setMusicData_def setActivePlaylist_def setPlaylistOrder_def setPlaylists_def
  setPlayQueue_def setCurrentSongIndex_def setSelectedSongPaths_def setLastClickedPath_def
  setViewMode_def showToast_def set_src_def set_currentTime_def pause_def play_def musicData_of_def
  addSongsToCache_def Let_def

lemma map_add_restrict_self [simp]: "m ++ (m |` A) = m"
  by (rule ext) (simp add: map_add_def restrict_map_def split: option.splits)

lemma map_add_self [simp]: "m ++ m = (m :: 'a \<rightharpoonup> 'b)"
  by (rule ext) (simp add: map_add_def split: option.splits)

lemma map_add_fold_upd:
  "m0 ++ fold (\<lambda>s m. m(path s \<mapsto> s)) ss m = fold (\<lambda>s m. m(path s \<mapsto> s)) ss (m0 ++ m)"
  by (induction ss arbitrary: m) simp_all

lemma map_add_fold_upd_self [simp]:
  "m ++ fold (\<lambda>s m. m(path s \<mapsto> s)) ss m = fold (\<lambda>s m. m(path s \<mapsto> s)) ss m"
  by (simp add: map_add_fold_upd)

lemma dom_fold_upd:
  "dom (fold (\<lambda>s m. m(path s \<mapsto> s)) ss m) = dom m \<union> path ` set ss"
  by (induction ss arbitrary: m) auto

lemma fold_upd_empty:
  assumes "fold (\<lambda>s m. m(path s \<mapsto> s)) ss m = Map.empty"
  shows "m = Map.empty"
proof -
  have "dom (fold (\<lambda>s m. m(path s \<mapsto> s)) ss m) = {}" using assms by simp
  then have "dom m = {}" by (simp add: dom_fold_upd)
  then show ?thesis by simp
qed

text \<open>
  What the closure returned by each optimistic action does when it is applied (to
  the world the action left, whatever toasts and backend calls were added since): it
  puts back the playlists map, the playlist order, the active playlist, the play
  queue and the current song index.
\<close>

lemma addSongs_undo:
  assumes "addSongs_action a ss w0 = (w1, Inr u)"
  shows "transaction_fields (u (showToast m k (w1\<lparr>apiCalls := calls\<rparr>))) = transaction_fields w0"
    "songs (u (showToast m k (w1\<lparr>apiCalls := calls\<rparr>))) = cache_with ss (songs w0)"
  using assms unfolding addSongs_action_def Let_def
  by (auto simp: transaction_fields_def setters cache_with_def dest: fold_upd_empty)

lemma renamePlaylist_undo:
  assumes "renamePlaylist_action a b w0 = (w1, Inr u)"
  shows "transaction_fields (u (showToast m k (w1\<lparr>apiCalls := calls\<rparr>))) = transaction_fields w0" "songs (u (showToast m k (w1\<lparr>apiCalls := calls\<rparr>))) = songs w0"
  using assms unfolding renamePlaylist_action_def Let_def
  by (auto simp: transaction_fields_def setters)

lemma deletePlaylist_undo:
  assumes "deletePlaylist_action a b w0 = (w1, Inr u)"
  shows "transaction_fields (u (showToast m k (w1\<lparr>apiCalls := calls\<rparr>))) = transaction_fields w0" "songs (u (showToast m k (w1\<lparr>apiCalls := calls\<rparr>))) = songs w0"
  using assms unfolding deletePlaylist_action_def Let_def
  by (auto simp: transaction_fields_def setters)

lemma deleteSongs_undo:
  assumes "deleteSongs_action a b c w0 = (w1, Inr u)"
  shows "transaction_fields (u (showToast m k (w1\<lparr>apiCalls := calls\<rparr>))) = transaction_fields w0" "songs (u (showToast m k (w1\<lparr>apiCalls := calls\<rparr>))) = songs w0"
  using assms unfolding deleteSongs_action_def Let_def
  by (auto simp: transaction_fields_def setters split: option.splits if_splits)

lemma reorderSongs_undo:
  assumes "reorderSongs_action a b w0 = (w1, Inr u)"
  shows "transaction_fields (u (showToast m k (w1\<lparr>apiCalls := calls\<rparr>))) = transaction_fields w0" "songs (u (showToast m k (w1\<lparr>apiCalls := calls\<rparr>))) = songs w0"
  using assms unfolding reorderSongs_action_def Let_def
  by (auto simp: transaction_fields_def setters)

lemma createPlaylist_undo:
  assumes "createPlaylist_action a w0 = (w1, Inr u)"
  shows "transaction_fields (u (showToast m k (w1\<lparr>apiCalls := calls\<rparr>))) = transaction_fields w0" "songs (u (showToast m k (w1\<lparr>apiCalls := calls\<rparr>))) = songs w0"
  using assms unfolding createPlaylist_action_def Let_def
  by (auto simp: transaction_fields_def setters)

lemma reorderPlaylists_undo:
  assumes "reorderPlaylists_action a w0 = (w1, Inr u)"
  shows "transaction_fields (u (showToast m k (w1\<lparr>apiCalls := calls\<rparr>))) = transaction_fields w0" "songs (u (showToast m k (w1\<lparr>apiCalls := calls\<rparr>))) = songs w0"
  using assms unfolding reorderPlaylists_action_def Let_def
  by (auto simp: transaction_fields_def setters)

lemma moveSongs_undo:
  assumes "moveSongs_action a b c w0 = (w1, Inr u)"
  shows "transaction_fields (u (showToast m k (w1\<lparr>apiCalls := calls\<rparr>))) = transaction_fields w0" "songs (u (showToast m k (w1\<lparr>apiCalls := calls\<rparr>))) = songs w0"
  using assms unfolding moveSongs_action_def
  by (auto simp: transaction_fields_def setters split: option.splits)


lemma txn_undo:
  assumes "txn_action t w0 = (w', Inr u)"
  shows "transaction_fields (u (showToast m k (w'\<lparr>apiCalls := calls\<rparr>))) = transaction_fields w0"
    and "songs (u (showToast m k (w'\<lparr>apiCalls := calls\<rparr>)))
           = (case t of AddSongs a ss \<Rightarrow> cache_with ss (songs w0) | _ \<Rightarrow> songs w0)"
  using assms
  by (cases t; simp add: addSongs_undo renamePlaylist_undo deletePlaylist_undo deleteSongs_undo reorderSongs_undo createPlaylist_undo
        reorderPlaylists_undo moveSongs_undo)+

text \<open>
  A rejected backend call, and a throwing \<^verbatim>\<open>onSuccess\<close>, reach the \<^verbatim>\<open>catch\<close> block, which
  throws at its first statement: the resumed part changes nothing of the store but
  the flag.
\<close>

lemma resume_rejected:
  "performOptimisticUpdate_resume p (Rejected msg) w
     = w\<lparr>rejections := rejections w @ [''ReferenceError: errorMessagePrefix is not defined''],
         isUpdating := False\<rparr>"
  by (simp add: performOptimisticUpdate_resume_def catch_block_def
      errorMessagePrefix_in_catch_def finally_block_def)

text \<open>
  C1, on the code. Whatever call is suspended, when its backend call rejects the
  resumed part leaves every field of the store as it finds it, the optimistic
  mutation included: it shows no toast and does not apply the undo closure; it
  records the \<^verbatim>\<open>ReferenceError\<close> and clears \<^verbatim>\<open>isUpdating\<close>. In the library with the
  playlists Default and Work, renaming Work to Focus with a rejected backend call
  ends with Focus in the playlists map and the playlist order, Work in neither, and
  no toast.
\<close>

theorem rejected_transaction_is_not_rolled_back:
  "performOptimisticUpdate_resume p (Rejected msg) w
     = w\<lparr>rejections := rejections w @ [''ReferenceError: errorMessagePrefix is not defined''],
         isUpdating := False\<rparr>
   \<and> playlists library ''Work'' = Some [] \<and> playlists library ''Focus'' = None
   \<and> playlistOrder library = [''Default'', ''Work'']
   \<and> (let w' = run_txn (RenamePlaylist ''Work'' ''Focus'') (Rejected ''offline'') library
      in playlists w' ''Work'' = None \<and> playlists w' ''Focus'' = Some []
       \<and> playlistOrder w' = [''Default'', ''Focus'']
       \<and> toasts w' = []
       \<and> rejections w' = [''ReferenceError: errorMessagePrefix is not defined'']
       \<and> \<not> isUpdating w')"
  by (simp add: resume_rejected run_txn_def performOptimisticUpdate_def
      performOptimisticUpdate_start_def renamePlaylist_action_def library_def setters)

subsection \<open>Optimistic transactions: mutual exclusion\<close>

lemma txn_action_isUpdating:
  "isUpdating (fst (txn_action t w)) = isUpdating w"
  by (cases t)
     (auto simp: addSongs_action_def renamePlaylist_action_def deletePlaylist_action_def
        deleteSongs_action_def reorderSongs_action_def createPlaylist_action_def
        reorderPlaylists_action_def moveSongs_action_def setters split: option.splits)

lemma start_locked:
  "isUpdating w \<Longrightarrow>
   performOptimisticUpdate_start act api opts w
     = (showToast ''Please wait for the current operation to complete.'' ''info'' w, None)"
  by (simp add: performOptimisticUpdate_start_def)

lemma resume_unlocks: "\<not> isUpdating (performOptimisticUpdate_resume p r w)"
  by (cases r)
     (simp_all add: performOptimisticUpdate_resume_def finally_block_def
        split: option.splits prod.splits)

lemma start_throw_unlocks:
  "\<not> isUpdating w \<Longrightarrow> snd (performOptimisticUpdate_start act api opts w) = None \<Longrightarrow>
   \<not> isUpdating (fst (performOptimisticUpdate_start act api opts w))"
  by (auto simp: performOptimisticUpdate_start_def finally_block_def Let_def
      split: prod.splits sum.splits)

lemma begin_txn_pending_locked:
  "\<not> isUpdating w \<Longrightarrow> begin_txn t w = (w1, Some p) \<Longrightarrow> isUpdating w1"
  using txn_action_isUpdating[of t "w\<lparr>isUpdating := True\<rparr>"]
  by (auto simp: begin_txn_def performOptimisticUpdate_start_def Let_def
      split: prod.splits sum.splits)

lemma step_mutex_inv: "mutex_inv s \<Longrightarrow> mutex_inv (step e s)"
proof (cases e)
  case (Call t)
  assume inv: "mutex_inv s"
  show ?thesis
  proof (cases "isUpdating (the_world s)")
    case True
    with inv Call show ?thesis
      by (simp add: mutex_inv_def begin_txn_def start_locked showToast_def)
  next
    case False
    obtain w1 r where b: "begin_txn t (the_world s) = (w1, r)" by (cases "begin_txn t (the_world s)")
    show ?thesis
    proof (cases r)
      case None
      with b have "\<not> isUpdating w1"
        using start_throw_unlocks[OF False, of "txn_action t" "txn_apiCall t" "txn_options t"]
        by (simp add: begin_txn_def)
      with inv Call b None False show ?thesis by (simp add: mutex_inv_def)
    next
      case (Some p)
      with b have "isUpdating w1" using begin_txn_pending_locked[OF False] by simp
      with inv Call b Some False show ?thesis by (simp add: mutex_inv_def)
    qed
  qed
next
  case (Settle i r)
  assume inv: "mutex_inv s"
  then have "length (in_flight s) \<le> 1" by (simp add: mutex_inv_def split: if_splits)
  with inv Settle show ?thesis
    by (auto simp: mutex_inv_def resume_unlocks)
next
  case (Other f)
  assume "mutex_inv s"
  with Other show ?thesis by (simp add: mutex_inv_def)
qed

lemma run_mutex_inv: "mutex_inv s \<Longrightarrow> mutex_inv (run es s)"
  unfolding run_def by (induction es arbitrary: s) (simp_all add: step_mutex_inv)

text \<open>
  C2. A call of \<^verbatim>\<open>performOptimisticUpdate\<close> made while \<^verbatim>\<open>isUpdating\<close> is set returns
  at once: the world is the one it found with the "please wait" toast added, so
  no field of the store has changed, no backend call was started and nothing of the
  optimistic action shows; no call is left suspended. The resumed part clears the
  flag whether the promise resolved or rejected, and so does a call whose optimistic
  action threw. Starting from a world with the flag clear and nothing suspended,
  whatever handlers, settlements and other code run, at most one call is suspended.
\<close>

theorem mutex_fail_fast_and_released:
  "(isUpdating w \<longrightarrow>
      performOptimisticUpdate_start optimisticAction apiCall opts w
        = (showToast ''Please wait for the current operation to complete.'' ''info'' w, None))
   \<and> \<not> isUpdating (performOptimisticUpdate_resume p result w)
   \<and> (\<not> isUpdating w \<and> snd (performOptimisticUpdate_start optimisticAction apiCall opts w) = None
        \<longrightarrow> \<not> isUpdating (fst (performOptimisticUpdate_start optimisticAction apiCall opts w)))
   \<and> (\<not> isUpdating w \<longrightarrow> length (in_flight (run es (idle w))) \<le> 1)"
proof -
  have "mutex_inv (run es (idle w))" if "\<not> isUpdating w"
    using that by (intro run_mutex_inv) (simp add: mutex_inv_def idle_def)
  then have "\<not> isUpdating w \<longrightarrow> length (in_flight (run es (idle w))) \<le> 1"
    by (auto simp: mutex_inv_def split: if_splits)
  then show ?thesis
    using start_locked[of w optimisticAction apiCall opts] resume_unlocks[of p result w]
      start_throw_unlocks[of w optimisticAction apiCall opts]
    by blast
qed


lemmas txn_eval = begin_txn_def run_txn_def performOptimisticUpdate_def
  performOptimisticUpdate_start_def performOptimisticUpdate_resume_def catch_block_def
  errorMessagePrefix_in_catch_def success_toast_def
  finally_block_def restorePlayback_def reshuffle_if_shuffling_def setters

theorem mutex_fail_fast_and_released_witness:
  "isUpdating (library\<lparr>isUpdating := True\<rparr>)
   \<and> performOptimisticUpdate_start (txn_action (CreatePlaylist ''Focus''))
        (txn_apiCall (CreatePlaylist ''Focus'')) (txn_options (CreatePlaylist ''Focus''))
        (library\<lparr>isUpdating := True\<rparr>)
      = (showToast ''Please wait for the current operation to complete.'' ''info''
           (library\<lparr>isUpdating := True\<rparr>), None)
   \<and> \<not> isUpdating library
   \<and> snd (performOptimisticUpdate_start (txn_action (MoveSongs ''Gone'' ''Work'' [''a.mp3'']))
        (txn_apiCall (MoveSongs ''Gone'' ''Work'' [''a.mp3'']))
        (txn_options (MoveSongs ''Gone'' ''Work'' [''a.mp3''])) library) = None
   \<and> \<not> isUpdating (fst (performOptimisticUpdate_start
        (txn_action (MoveSongs ''Gone'' ''Work'' [''a.mp3'']))
        (txn_apiCall (MoveSongs ''Gone'' ''Work'' [''a.mp3'']))
        (txn_options (MoveSongs ''Gone'' ''Work'' [''a.mp3''])) library))
   \<and> length (in_flight (run [Call (CreatePlaylist ''Focus''), Call (ReorderPlaylists [''Work'', ''Default'']),
                               Settle 0 (Rejected ''offline''), Call (CreatePlaylist ''Calm'')]
                          (idle library))) \<le> 1"
proof -
  let ?t = "CreatePlaylist ''Focus''"
  let ?m = "MoveSongs ''Gone'' ''Work'' [''a.mp3'']"
  let ?es = "[Call (CreatePlaylist ''Focus''), Call (ReorderPlaylists [''Work'', ''Default'']),
              Settle 0 (Rejected ''offline''), Call (CreatePlaylist ''Calm'')]"
  have l: "isUpdating (library\<lparr>isUpdating := True\<rparr>)" by simp
  have u: "\<not> isUpdating library" by (simp add: library_def)
  have n: "snd (performOptimisticUpdate_start (txn_action ?m) (txn_apiCall ?m) (txn_options ?m)
             library) = None"
    by (simp add: performOptimisticUpdate_start_def moveSongs_action_def library_def Let_def)
  show ?thesis
    using mutex_fail_fast_and_released
            [of "library\<lparr>isUpdating := True\<rparr>" "txn_action ?t" "txn_apiCall ?t" "txn_options ?t"]
          mutex_fail_fast_and_released
            [of library "txn_action ?m" "txn_apiCall ?m" "txn_options ?m" _ _ ?es]
          l u n
    by blast
qed

text \<open>
  Two handlers in a row: the second call finds the flag set and starts no backend
  call.
\<close>

lemma second_call_starts_no_api_call:
  "apiCalls (the_world (run [Call (CreatePlaylist ''Focus''), Call (ReorderPlaylists [''Work'', ''Default''])] (idle library)))
     = [Api_reorderPlaylists [''Default'', ''Work'', ''Focus'']]"
  by (simp add: run_def idle_def txn_eval library_def createPlaylist_action_def)

subsection \<open>Deleting songs\<close>

text \<open>
  \<^verbatim>\<open>deleteSelectedSongs\<close> builds a song map without the selected paths and hands it to
  \<^verbatim>\<open>setMusicData\<close>, which merges the map it is given into the cache: the merge
  removes nothing. Every playlist loses the selected paths.
\<close>

lemma deleteSongs_action_songs:
  "songs (fst (deleteSongs_action selected playingSong wasDeleted w)) = songs w"
  by (auto simp: deleteSongs_action_def setters split: option.splits)

lemma deleteSongs_action_playlists:
  "snd (deleteSongs_action selected playingSong wasDeleted w) = Inr u \<Longrightarrow>
   playlists (fst (deleteSongs_action selected playingSong wasDeleted w)) pName
     = map_option (filter (\<lambda>p. p \<notin> set selected)) (playlists w pName)"
  by (auto simp: deleteSongs_action_def setters split: option.splits if_splits)

text \<open>
  C8, on the code: with \<^verbatim>\<open>a.mp3\<close> selected, cached and in the Default playlist,
  confirming the deletion empties the playlist and leaves \<^verbatim>\<open>a.mp3\<close> in the song
  cache.
\<close>

theorem deleteSelectedSongs_keeps_cached_song:
  "selectedSongPaths library = [''a.mp3'']
   \<and> songs (deleteSelectedSongs [''a.mp3''] True Resolved library) ''a.mp3'' = Some song_a
   \<and> playlists (deleteSelectedSongs [''a.mp3''] True Resolved library) ''Default'' = Some []"
  by (simp add: deleteSelectedSongs_def deleteSelectedSongs_txn_def getActivePlaylist_own_def
      nth_opt_def txn_eval library_def deleteSongs_action_def)

subsection \<open>The active playlist\<close>

text \<open>
  Away from the names of \<^verbatim>\<open>Object.prototype\<close> the call returns, with one element for
  each path of the active playlist: the cached song, or the placeholder.
\<close>

lemma getActivePlaylist_returns:
  assumes "playlists w (activePlaylist w) \<noteq> None \<or> activePlaylist w \<notin> set Object_prototype"
    and "\<And>ps p. playlists w (activePlaylist w) = Some ps \<Longrightarrow> p \<in> set ps \<Longrightarrow>
           songs w p \<noteq> None \<or> p \<notin> set Object_prototype"
  shows "getActivePlaylist w = Inr (map Song (getActivePlaylist_own w))"
proof (cases "playlists w (activePlaylist w)")
  case None
  with assms(1) show ?thesis
    by (simp add: getActivePlaylist_def getActivePlaylist_own_def get_property_def)
next
  case (Some ps)
  have "(case get_property (songs w) p of
           Own s \<Rightarrow> Song s
         | Inherited k \<Rightarrow> Member_of_Object_prototype k
         | Undefined \<Rightarrow> Song (placeholder p))
        = Song (case songs w p of None \<Rightarrow> placeholder p | Some s \<Rightarrow> s)"
    if "p \<in> set ps" for p
    using assms(2)[OF Some that] by (auto simp: get_property_def split: option.splits)
  with Some show ?thesis
    by (simp add: getActivePlaylist_def getActivePlaylist_own_def get_property_def)
qed

text \<open>
  C10, on the code. With \<^verbatim>\<open>constructor\<close> as the active playlist's name and no playlist
  of that name, \<^verbatim>\<open>getActivePlaylist\<close> throws. With a name that is neither a playlist
  nor a property of \<^verbatim>\<open>Object.prototype\<close> it returns the empty array. With the path
  \<^verbatim>\<open>toString\<close> in the active playlist and not in the cache, the element for it is
  neither a cached song nor a placeholder.
\<close>

theorem getActivePlaylist_throws_for_inherited_name:
  "playlists (library\<lparr>activePlaylist := ''constructor''\<rparr>) ''constructor'' = None
   \<and> getActivePlaylist (library\<lparr>activePlaylist := ''constructor''\<rparr>)
       = Inl ''TypeError: activePlaylistPaths.map is not a function''
   \<and> getActivePlaylist (library\<lparr>activePlaylist := ''Gone''\<rparr>) = Inr []
   \<and> getActivePlaylist library = Inr [Song song_a]
   \<and> getActivePlaylist
         (library\<lparr>playlists := (playlists library)(''Default'' \<mapsto> [''a.mp3'', ''z.mp3'', ''toString''])\<rparr>)
       = Inr [Song song_a, Song (placeholder ''z.mp3''), Member_of_Object_prototype ''toString'']"
  by (simp add: getActivePlaylist_def get_property_def Object_prototype_def library_def)

subsection \<open>The virtualized list: the rows on show\<close>


lemma paint_keeps [simp]:
  "translateY (paint_loading b nd) = translateY nd"
  "dataset_path (paint_loading b nd) = dataset_path nd"
  "translateY (paint_title t nd) = translateY nd"
  "dataset_path (paint_title t nd) = dataset_path nd"
  "translateY (paint_artist t nd) = translateY nd"
  "dataset_path (paint_artist t nd) = dataset_path nd"
  "translateY (paint_playing b nd) = translateY nd"
  "dataset_path (paint_playing b nd) = dataset_path nd"
  "translateY (paint_missing b nd) = translateY nd"
  "dataset_path (paint_missing b nd) = dataset_path nd"
  "translateY (paint_selected b nd) = translateY nd"
  "dataset_path (paint_selected b nd) = dataset_path nd"
  by (simp_all add: paint_loading_def paint_title_def paint_artist_def paint_playing_def
      paint_missing_def paint_selected_def Let_def)


declare render_rows.simps [simp del] grow_pool.simps [simp del]















subsection \<open>The virtualized list: fetches in flight\<close>

lemma set_add_distinct: "distinct xs \<Longrightarrow> distinct (set_add x xs)"
  by (simp add: set_add_def)

lemma render_rows_pending_distinct:
  "render_rows c p s ds i e k nodes pend = Some (nodes', pend', k') \<Longrightarrow> distinct pend \<Longrightarrow>
   distinct pend'"
proof (induction c p s ds i e k nodes pend rule: render_rows.induct)
  case (1 c p s ds i e k nodes pend)
  show ?case
  proof (cases "i \<le> e")
    case False
    with "1.prems" show ?thesis by (subst (asm) render_rows.simps) simp
  next
    case True
    show ?thesis
    proof (cases "0 \<le> i \<and> nat i < length ds \<and> k < length nodes")
      case False
      with True "1.prems" show ?thesis by (subst (asm) render_rows.simps) simp
    next
      case rng: True
      obtain nd loading where rr: "render_row c p s i (ds ! nat i) (nodes ! k) = (nd, loading)"
        by (cases "render_row c p s i (ds ! nat i) (nodes ! k)")
      let ?pend = "if loading then set_add (path (ds ! nat i)) pend else pend"
      have d: "distinct ?pend" using "1.prems"(2) by (simp add: set_add_distinct)
      have r: "render_rows c p s ds (i + 1) e (Suc k) (nodes[k := nd]) ?pend
                = Some (nodes', pend', k')"
        using "1.prems"(1) True rng rr by (subst (asm) render_rows.simps) simp
      from "1.IH"[OF True rng refl rr[symmetric] refl r d] show ?thesis .
    qed
  qed
qed

lemma renderVisibleSongs_fetch:
  assumes "renderVisibleSongs w v = Some v'"
  shows "pathsCurrentlyFetching v' = pathsCurrentlyFetching v"
    and "fetch_batches v' = fetch_batches v"
    and "getSongsByPaths_calls v' = getSongsByPaths_calls v"
    and "distinct (pendingPathsToFetch v) \<Longrightarrow> distinct (pendingPathsToFetch v')"
  using assms render_rows_pending_distinct
  by (auto simp: renderVisibleSongs_def Let_def split: option.splits)

lemma render_fetch_inv:
  "fetch_inv v \<Longrightarrow> fetch_inv (case renderVisibleSongs w v of None \<Rightarrow> v | Some v' \<Rightarrow> v')"
  by (auto simp: fetch_inv_def renderVisibleSongs_fetch split: option.splits)

lemma start_fetch_inv:
  assumes "fetch_inv v" and "distinct ps"
  shows "fetch_inv (fetchSongData_start ps v)"
  using assms by (auto simp: fetch_inv_def fetchSongData_start_def Let_def)

lemma timer_fetch_inv: "fetch_inv v \<Longrightarrow> fetch_inv (processPendingFetches v)"
proof -
  assume inv: "fetch_inv v"
  let ?v1 = "v\<lparr>fetch_timer := False, pendingPathsToFetch := []\<rparr>"
  have "fetch_inv ?v1" using inv by (simp add: fetch_inv_def)
  moreover have "distinct (pendingPathsToFetch v)" using inv by (simp add: fetch_inv_def)
  ultimately have "fetch_inv (fetchSongData_start (pendingPathsToFetch v) ?v1)"
    by (rule start_fetch_inv)
  with inv show ?thesis by (simp add: processPendingFetches_def Let_def fetch_inv_def)
qed

lemma concat_remove_nth:
  assumes "i < length bs" and "distinct (concat bs)"
  shows "distinct (concat (take i bs @ drop (Suc i) bs))"
    and "set (concat bs) - set (bs ! i) = set (concat (take i bs @ drop (Suc i) bs))"
proof -
  have bs: "bs = take i bs @ (bs ! i) # drop (Suc i) bs"
    using assms(1) by (simp add: id_take_nth_drop)
  from assms(2) have d: "distinct (concat (take i bs @ (bs ! i) # drop (Suc i) bs))"
    by (subst (asm) bs) 
  then show "distinct (concat (take i bs @ drop (Suc i) bs))" by auto
  have "set (concat bs) = set (concat (take i bs @ (bs ! i) # drop (Suc i) bs))"
    by (subst bs) simp
  with d show "set (concat bs) - set (bs ! i) = set (concat (take i bs @ drop (Suc i) bs))"
    by auto
qed

lemma resume_fetch:
  assumes "fetch_inv v" and "i < length (fetch_batches v)"
  shows "pathsCurrentlyFetching (snd (fetchSongData_resume i r (w, v)))
           = pathsCurrentlyFetching v - set (fetch_batches v ! i)"
    and "fetch_batches (snd (fetchSongData_resume i r (w, v)))
           = take i (fetch_batches v) @ drop (Suc i) (fetch_batches v)"
    and "getSongsByPaths_calls (snd (fetchSongData_resume i r (w, v))) = getSongsByPaths_calls v"
    and "distinct (pendingPathsToFetch (snd (fetchSongData_resume i r (w, v))))"
  using assms
  by (auto simp: fetchSongData_resume_def Let_def fetch_inv_def renderVisibleSongs_fetch
      split: fetch_result.splits option.splits prod.splits)

lemma resume_fetch_inv: "fetch_inv v \<Longrightarrow> fetch_inv (snd (fetchSongData_resume i r (w, v)))"
proof (cases "i < length (fetch_batches v)")
  case True
  assume inv: "fetch_inv v"
  from resume_fetch[OF inv True, of r w] concat_remove_nth[OF True, of] inv
  show ?thesis by (simp add: fetch_inv_def)
next
  case False
  assume "fetch_inv v"
  with False show ?thesis by (simp add: fetchSongData_resume_def)
qed

lemma list_step_fetch_inv: "fetch_inv (snd wv) \<Longrightarrow> fetch_inv (snd (list_step e wv))"
proof (cases wv)
  case (Pair w v)
  assume "fetch_inv (snd wv)"
  with Pair have inv: "fetch_inv v" by simp
  show ?thesis
  proof (cases e)
    case Render
    with Pair render_fetch_inv[OF inv, of w] show ?thesis by simp
  next
    case TimerFires
    with Pair timer_fetch_inv[OF inv] inv show ?thesis by simp
  next
    case (FetchSettles i r)
    with Pair resume_fetch_inv[OF inv, of i r w] show ?thesis by simp
  qed (use Pair inv in \<open>simp_all add: fetch_inv_def\<close>)
qed

lemma list_run_fetch_inv: "fetch_inv (snd wv) \<Longrightarrow> fetch_inv (snd (list_run es wv))"
  unfolding list_run_def by (induction es arbitrary: wv) (simp_all add: list_step_fetch_inv)

lemma start_new_calls:
  "new_calls v (fetchSongData_start ps v)
     = (if filter (\<lambda>p. p \<notin> pathsCurrentlyFetching v) ps = [] then []
        else [filter (\<lambda>p. p \<notin> pathsCurrentlyFetching v) ps])"
  by (auto simp: new_calls_def fetchSongData_start_def Let_def)

text \<open>
  C4. In every state the list reaches from one with nothing in flight, whatever the
  order of scrolls, renders, timer firings, settlements and store writes: the
  suspended fetches have pairwise different paths, and the in-flight set is exactly
  the set of their paths. So a backend call a new \<^verbatim>\<open>fetchSongData\<close> starts carries no
  path of the in-flight set and none of a suspended fetch; a requested path that is
  not in flight is in the call; and when a suspended fetch settles, resolved or
  rejected, exactly its paths leave the in-flight set.
\<close>

theorem no_duplicate_fetch:
  assumes "quiet v0" and "list_run es (w0, v0) = (w, v)"
  shows "distinct (concat (fetch_batches v))
       \<and> pathsCurrentlyFetching v = set (concat (fetch_batches v))
       \<and> (\<forall>ps. \<forall>c \<in> set (new_calls v (fetchSongData_start ps v)).
              set c \<inter> pathsCurrentlyFetching v = {}
              \<and> (\<forall>b \<in> set (fetch_batches v). set c \<inter> set b = {}))
       \<and> (\<forall>ps. \<forall>p \<in> set ps. p \<notin> pathsCurrentlyFetching v \<longrightarrow>
              (\<exists>c \<in> set (new_calls v (fetchSongData_start ps v)). p \<in> set c))
       \<and> (\<forall>i r. i < length (fetch_batches v) \<longrightarrow>
              pathsCurrentlyFetching (snd (fetchSongData_resume i r (w, v)))
                = pathsCurrentlyFetching v - set (fetch_batches v ! i)
              \<and> fetch_batches (snd (fetchSongData_resume i r (w, v)))
                = take i (fetch_batches v) @ drop (Suc i) (fetch_batches v))"
proof -
  have "fetch_inv (snd (w0, v0))" using assms(1) by (simp add: quiet_def fetch_inv_def)
  from list_run_fetch_inv[OF this, of es] assms(2) have inv: "fetch_inv v" by simp
  then have a: "distinct (concat (fetch_batches v))"
    and b: "pathsCurrentlyFetching v = set (concat (fetch_batches v))"
    by (simp_all add: fetch_inv_def)
  have c: "\<forall>ps. \<forall>c \<in> set (new_calls v (fetchSongData_start ps v)).
              set c \<inter> pathsCurrentlyFetching v = {}
              \<and> (\<forall>b \<in> set (fetch_batches v). set c \<inter> set b = {})"
    using b by (auto simp: start_new_calls split: if_splits)
  have d: "\<forall>ps. \<forall>p \<in> set ps. p \<notin> pathsCurrentlyFetching v \<longrightarrow>
              (\<exists>c \<in> set (new_calls v (fetchSongData_start ps v)). p \<in> set c)"
    by (auto simp: start_new_calls filter_empty_conv)
  have e: "\<forall>i r. i < length (fetch_batches v) \<longrightarrow>
              pathsCurrentlyFetching (snd (fetchSongData_resume i r (w, v)))
                = pathsCurrentlyFetching v - set (fetch_batches v ! i)
              \<and> fetch_batches (snd (fetchSongData_resume i r (w, v)))
                = take i (fetch_batches v) @ drop (Suc i) (fetch_batches v)"
    using resume_fetch[OF inv] by blast
  from a b c d e show ?thesis by blast
qed


lemmas list_eval = list_run_def renderVisibleSongs_def processPendingFetches_def
  fetchSongData_start_def fetchSongData_resume_def render_rows.simps grow_pool.simps
  render_row_def hide_from_def set_add_def renderStartIndex_def renderEndIndex_def
  startIndex_def numVisibleItems_def ITEM_HEIGHT_def BUFFER_ITEMS_def getActivePlaylist_own_def
  nth_opt_def paint_loading_def new_li_def Let_def

lemma scroll_run_state:
  "fetch_batches (snd (list_run scroll_run (library, short_list))) = [[''b.mp3'', ''c.mp3'']]"
  "getSongsByPaths_calls (snd (list_run scroll_run (library, short_list)))
     = [[''b.mp3'', ''c.mp3'']]"
  "pathsCurrentlyFetching (snd (list_run scroll_run (library, short_list)))
     = {''b.mp3'', ''c.mp3''}"
  by (simp_all add: scroll_run_def list_eval short_list_def library_def song_a_def song_b_def
      song_c_def)

theorem no_duplicate_fetch_witness:
  "quiet short_list
   \<and> (let w = fst (list_run scroll_run (library, short_list));
           v = snd (list_run scroll_run (library, short_list));
           v' = snd (fetchSongData_resume 0 (Failed ''offline'') (w, v))
       in fetch_batches v = [[''b.mp3'', ''c.mp3'']]
        \<and> getSongsByPaths_calls v = [[''b.mp3'', ''c.mp3'']]
        \<and> pathsCurrentlyFetching v = {''b.mp3'', ''c.mp3''}
        \<and> new_calls v (fetchSongData_start [''b.mp3'', ''c.mp3''] v) = []
        \<and> pathsCurrentlyFetching v' = {}
        \<and> fetch_batches v' = []
        \<and> new_calls v' (fetchSongData_start [''b.mp3'', ''c.mp3''] v')
             = [[''b.mp3'', ''c.mp3'']])"
proof -
  let ?w = "fst (list_run scroll_run (library, short_list))"
  let ?v = "snd (list_run scroll_run (library, short_list))"
  let ?v' = "snd (fetchSongData_resume 0 (Failed ''offline'') (?w, ?v))"
  have q: "quiet short_list" by (simp add: quiet_def short_list_def)
  have r: "list_run scroll_run (library, short_list) = (?w, ?v)" by simp
  note t = no_duplicate_fetch[OF q r]
  from t scroll_run_state have s: "pathsCurrentlyFetching ?v' = {}" "fetch_batches ?v' = []"
    by simp_all
  have n: "new_calls ?v (fetchSongData_start [''b.mp3'', ''c.mp3''] ?v) = []"
    by (simp only: start_new_calls scroll_run_state) simp
  have n': "new_calls ?v' (fetchSongData_start [''b.mp3'', ''c.mp3''] ?v')
             = [[''b.mp3'', ''c.mp3'']]"
    by (simp only: start_new_calls s) simp
  from q scroll_run_state s n n' show ?thesis by (simp add: Let_def)
qed


subsection \<open>The render scheduler\<close>

lemma scheduleRender_dirty:
  "dirty (scheduleRender u s) k = (case u k of None \<Rightarrow> dirty s k | Some b \<Rightarrow> b)"
  by (simp add: scheduleRender_def Let_def)

lemma fold_schedule_dirty:
  "\<forall>u \<in> set us. marks_only u \<Longrightarrow>
   dirty (fold scheduleRender us s) k \<longleftrightarrow> dirty s k \<or> (\<exists>u \<in> set us. u k = Some True)"
proof (induction us arbitrary: s)
  case Nil
  then show ?case by simp
next
  case (Cons u us)
  then have m: "u k \<noteq> Some False" by (simp add: marks_only_def)
  have "dirty (scheduleRender u s) k \<longleftrightarrow> dirty s k \<or> u k = Some True"
    using m by (cases "u k") (auto simp: scheduleRender_dirty)
  with Cons show ?case by auto
qed

lemma scheduleRender_frames:
  "isRenderScheduled_main (scheduleRender u s)"
  "frames (scheduleRender u s) = (if isRenderScheduled_main s then frames s else frames s + 1)"
  by (simp_all add: scheduleRender_def Let_def)

lemma fold_schedule_scheduled:
  "isRenderScheduled_main s \<Longrightarrow>
   isRenderScheduled_main (fold scheduleRender us s) \<and> frames (fold scheduleRender us s) = frames s"
  by (induction us arbitrary: s) (simp_all add: scheduleRender_frames)

lemma fold_schedule_frames:
  assumes "\<not> isRenderScheduled_main s" and "us \<noteq> []"
  shows "isRenderScheduled_main (fold scheduleRender us s)"
    and "frames (fold scheduleRender us s) = frames s + 1"
proof -
  from assms(2) obtain u us' where us: "us = u # us'" by (cases us) auto
  have "isRenderScheduled_main (scheduleRender u s)" by (simp add: scheduleRender_frames)
  from fold_schedule_scheduled[OF this, of us'] assms(1) us
  show "isRenderScheduled_main (fold scheduleRender us s)"
    and "frames (fold scheduleRender us s) = frames s + 1"
    by (simp_all add: scheduleRender_frames)
qed

text \<open>
  The lemmas above are the merging of the flags and the single request of a frame,
  for calls made while no callback is running. The callback itself is suspended at
  its \<^verbatim>\<open>await\<close>s with \<^verbatim>\<open>isRenderScheduled\<close> still set, and its last statements clear
  every flag, drawn or not.
\<close>

lemmas page_eval = page_run_def idle_page_def idle_scheduler_def after_part_def and_then_def
  scheduleRender_def performScheduledRenders_start_def performScheduledRenders_resume_def
  renders_after_songList_def renders_after_player_def reset_flags_def Let_def

text \<open>
  C5, on the code. First run: the current song changes
  (\<^verbatim>\<open>scheduleRender({ songListStyles: true, player: true })\<close>), the frame callback runs
  and is suspended at \<^verbatim>\<open>await UI.updatePlayerInfo(song)\<close>; the playlist order changes
  (\<^verbatim>\<open>scheduleRender({ playlists: true })\<close>): the flag is set and no frame is requested;
  the awaited promise resolves and the callback runs to its end. The playlists were
  never drawn, their flag is cleared and no callback is waiting. Second run: the
  playlists change (\<^verbatim>\<open>scheduleRender({ songList: true })\<close>), the callback is suspended
  at \<^verbatim>\<open>await UI.renderSongList()\<close> and the search rejects: the flag and the scheduled
  marker stay set, so a later \<^verbatim>\<open>scheduleRender({ playlists: true })\<close> requests no frame.
\<close>

theorem render_flag_set_during_await_is_lost:
  "(let pg = page_run [ScheduleRender [SongListStyles \<mapsto> True, Player \<mapsto> True],
                       AnimationFrame True,
                       ScheduleRender [Playlists \<mapsto> True]] idle_page
    in dirty (sched pg) Playlists \<and> frames (sched pg) = 0
       \<and> suspended pg = [Await_updatePlayerInfo]
       \<and> drawn pg = [UpdateSongListUI, UpdatePlayerInfo])
   \<and> (let pg = page_run [ScheduleRender [SongListStyles \<mapsto> True, Player \<mapsto> True],
                         AnimationFrame True,
                         ScheduleRender [Playlists \<mapsto> True],
                         Settled 0 Resolved True] idle_page
      in drawn pg = [UpdateSongListUI, UpdatePlayerInfo, BroadcastStateChange]
         \<and> \<not> dirty (sched pg) Playlists
         \<and> \<not> isRenderScheduled_main (sched pg) \<and> frames (sched pg) = 0
         \<and> suspended pg = [])
   \<and> (let pg = page_run [ScheduleRender [SongList \<mapsto> True],
                         AnimationFrame True,
                         Settled 0 (Rejected ''Request timed out'') True,
                         ScheduleRender [Playlists \<mapsto> True]] idle_page
      in drawn pg = [RenderSongList]
         \<and> dirty (sched pg) SongList \<and> dirty (sched pg) Playlists
         \<and> isRenderScheduled_main (sched pg) \<and> frames (sched pg) = 0
         \<and> suspended pg = [])"
  by (simp add: page_eval)

subsection \<open>Markers\<close>

text \<open>
  The rounding: \<open>binary_exponent\<close> is the exponent it is said to be, the significand
  has 53 bits, the rounded value is within half a unit in the last place of the exact
  one, and has its sign. So the comparator of the sort is negative, zero or positive
  as the first timestamp is below, equal to or above the second.
\<close>

lemma pow2_powi: "pow2 e = 2 powi e"
  by (cases "0 \<le> e") (simp_all add: pow2_def power_int_def power_one_over inverse_eq_divide)

lemma pow2_pos [simp]: "0 < pow2 e"
  by (simp add: pow2_def)

lemma pow2_nz [simp]: "pow2 e \<noteq> 0"
  by (simp add: pow2_def)

lemma pow2_diff: "pow2 (m - n) = pow2 m / pow2 n"
  using power_int_diff[of "2::rat" m n] by (simp add: pow2_powi)

lemma pow2_nat: "0 \<le> k \<Longrightarrow> pow2 k = 2 ^ nat k"
  by (simp add: pow2_def)

lemma bitlen_rat:
  assumes "0 < a"
  shows "pow2 (bitlen a - 1) \<le> of_int a" "of_int a < pow2 (bitlen a)"
proof -
  from bitlen_bounds[OF assms]
  have 1: "2 ^ nat (bitlen a - 1) \<le> a" and 2: "a < 2 ^ nat (bitlen a)" by simp_all
  have p: "0 < bitlen a"
  proof (rule ccontr)
    assume "\<not> 0 < bitlen a"
    then have "nat (bitlen a) = 0" by simp
    with 2 assms show False by simp
  qed
  have "(of_int (2 ^ nat (bitlen a - 1)) :: rat) \<le> of_int a" using 1 by (simp only: of_int_le_iff)
  then show "pow2 (bitlen a - 1) \<le> of_int a" using p by (simp add: pow2_nat)
  have "(of_int a :: rat) < of_int (2 ^ nat (bitlen a))" using 2 by (simp only: of_int_less_iff)
  then show "of_int a < pow2 (bitlen a)" using p by (simp add: pow2_nat)
qed

lemma binary_exponent_bounds:
  assumes "0 < x"
  shows "pow2 (binary_exponent x) \<le> x" and "x < pow2 (binary_exponent x + 1)"
proof -
  obtain a b where q: "quotient_of x = (a, b)" by (cases "quotient_of x")
  then have x: "x = of_int a / of_int b" and b: "0 < b"
    by (simp_all add: quotient_of_div quotient_of_denom_pos)
  with assms have a: "0 < a" by (simp add: zero_less_divide_iff)
  let ?d = "bitlen a - bitlen b"
  have lo: "pow2 (?d - 1) \<le> x"
  proof -
    have "pow2 (?d - 1) = pow2 (bitlen a - 1) / pow2 (bitlen b)"
      using pow2_diff[of "bitlen a - 1" "bitlen b"] by (simp add: algebra_simps)
    also have "\<dots> \<le> of_int a / of_int b"
      using bitlen_rat(1)[OF a] bitlen_rat(2)[OF b] b a
      by (intro frac_le) (simp_all add: less_imp_le)
    finally show ?thesis by (simp add: x)
  qed
  have hi: "x < pow2 (?d + 1)"
  proof -
    have "of_int a / of_int b < pow2 (bitlen a) / pow2 (bitlen b - 1)"
      using bitlen_rat(2)[OF a] bitlen_rat(1)[OF b] b a
      by (intro frac_less) simp_all
    also have "\<dots> = pow2 (?d + 1)"
      using pow2_diff[of "bitlen a" "bitlen b - 1"] by (simp add: algebra_simps)
    finally show ?thesis by (simp add: x)
  qed
  have e: "binary_exponent x = (if pow2 ?d \<le> x then ?d else ?d - 1)"
    by (simp add: binary_exponent_def q Let_def)
  show "pow2 (binary_exponent x) \<le> x" using lo by (simp add: e)
  show "x < pow2 (binary_exponent x + 1)" using hi by (auto simp: e not_le)
qed

lemma round_half_even_bounds:
  "\<bar>of_int (round_half_even m) - m\<bar> \<le> 1 / 2" "\<lfloor>m\<rfloor> \<le> round_half_even m"
  by (auto simp: round_half_even_def Let_def abs_if not_less) linarith+

lemma significand_bounds:
  assumes "x \<noteq> 0"
  shows "2 ^ 52 \<le> round_half_even (\<bar>x\<bar> / pow2 (binary_exponent \<bar>x\<bar> - 52))"
    and "round_half_even (\<bar>x\<bar> / pow2 (binary_exponent \<bar>x\<bar> - 52)) \<le> 2 ^ 53"
proof -
  define e where "e = binary_exponent \<bar>x\<bar>"
  define y where "y = \<bar>x\<bar> / pow2 e"
  define m where "m = \<bar>x\<bar> / pow2 (e - 52)"
  from assms have p: "0 < \<bar>x\<bar>" by simp
  have q: "pow2 (e - 52) = pow2 e / 2 ^ 52"
    using pow2_diff[of e 52] by (simp add: pow2_nat)
  have m: "m = y * 2 ^ 52" unfolding m_def y_def q by simp
  have y1: "1 \<le> y" using binary_exponent_bounds(1)[OF p] by (simp add: y_def e_def)
  have "pow2 (e + 1) = 2 * pow2 e"
    using pow2_diff[of "e + 1" 1] by (simp add: pow2_nat field_simps)
  then have y2: "y < 2" using binary_exponent_bounds(2)[OF p]
    by (simp add: y_def e_def field_simps)
  from y1 have lo: "2 ^ 52 \<le> m" unfolding m by simp
  from y2 have hi: "m < 2 ^ 53" unfolding m by simp
  have "(2 ^ 52 :: int) \<le> \<lfloor>m\<rfloor>" using lo by (simp add: le_floor_iff)
  with round_half_even_bounds(2)[of m] have 1: "2 ^ 52 \<le> round_half_even m" by linarith
  have "of_int (round_half_even m) \<le> m + 1 / 2"
    using round_half_even_bounds(1)[of m] by linarith
  with hi have "(of_int (round_half_even m) :: rat) < of_int (2 ^ 53 + 1)" by simp
  then have "round_half_even m < 2 ^ 53 + 1" by (simp only: of_int_less_iff)
  then have 2: "round_half_even m \<le> 2 ^ 53" by simp
  from 1 show "2 ^ 52 \<le> round_half_even (\<bar>x\<bar> / pow2 (binary_exponent \<bar>x\<bar> - 52))"
    by (simp add: m_def e_def)
  from 2 show "round_half_even (\<bar>x\<bar> / pow2 (binary_exponent \<bar>x\<bar> - 52)) \<le> 2 ^ 53"
    by (simp add: m_def e_def)
qed

lemma to_double_sgn: "sgn (to_double x) = sgn x"
proof (cases "x = 0")
  case True
  then show ?thesis by (simp add: to_double_def)
next
  case False
  from significand_bounds(1)[OF False]
  have "0 < round_half_even (\<bar>x\<bar> / pow2 (binary_exponent \<bar>x\<bar> - 52))" by simp
  with False show ?thesis
    by (simp add: to_double_def Let_def sgn_mult)
qed

lemma to_double_error:
  "\<bar>to_double x - x\<bar> \<le> pow2 (binary_exponent \<bar>x\<bar> - 52) / 2"
proof (cases "x = 0")
  case True
  then show ?thesis by (simp add: to_double_def less_imp_le)
next
  case False
  let ?q = "pow2 (binary_exponent \<bar>x\<bar> - 52)"
  let ?r = "round_half_even (\<bar>x\<bar> / ?q)"
  have "to_double x - x = sgn x * (of_int ?r - \<bar>x\<bar> / ?q) * ?q"
    using False by (simp add: to_double_def Let_def algebra_simps sgn_if abs_if)
  then have "\<bar>to_double x - x\<bar> = \<bar>of_int ?r - \<bar>x\<bar> / ?q\<bar> * ?q"
    using False by (simp add: abs_mult abs_sgn_eq less_imp_le)
  also have "\<dots> \<le> 1 / 2 * ?q"
    using round_half_even_bounds(1)[of "\<bar>x\<bar> / ?q"]
    by (intro mult_right_mono) (simp_all add: less_imp_le)
  finally show ?thesis by simp
qed

lemma double_minus_sgn: "sgn (double_minus a b) = sgn (a - b)"
  by (simp add: double_minus_def to_double_sgn)

text \<open>The computed difference of two numbers changes sign when they are swapped.\<close>

lemma to_double_minus: "to_double (- x) = - to_double x"
  by (simp add: to_double_def Let_def)

lemma double_minus_commute: "\<bar>double_minus a b\<bar> = \<bar>double_minus b a\<bar>"
proof -
  have "double_minus a b = - double_minus b a"
    using to_double_minus[of "b - a"] by (simp add: double_minus_def)
  then show ?thesis by simp
qed

text \<open>Spacing does not depend on the order of the list, so sorting keeps it.\<close>

lemma list_all_insort:
  "list_all P (insort_key f x xs) \<longleftrightarrow> P x \<and> list_all P xs"
  by (auto simp: list_all_iff set_insort_key)

lemma spaced_insort:
  "spaced (insort_key timestamp x xs) \<longleftrightarrow> spaced (x # xs)"
  by (induction xs) (auto simp: list_all_insort double_minus_commute)

lemma spaced_sort: "spaced (sort_key timestamp xs) \<longleftrightarrow> spaced xs"
proof (induction xs)
  case Nil
  then show ?case by simp
next
  case (Cons x xs)
  have "spaced (sort_key timestamp (x # xs)) \<longleftrightarrow> spaced (x # sort_key timestamp xs)"
    by (simp add: spaced_insort)
  also have "\<dots> \<longleftrightarrow> spaced (x # xs)"
    using Cons by (simp add: list_all_iff)
  finally show ?case .
qed

lemma spaced_snoc:
  "spaced (xs @ [x]) \<longleftrightarrow>
     spaced xs \<and> list_all (\<lambda>m. \<bar>double_minus (timestamp m) (timestamp x)\<bar> \<ge> 1 / 2) xs"
  by (induction xs) auto

lemma spaced_filter: "spaced xs \<Longrightarrow> spaced (filter P xs)"
  by (induction xs) (auto simp: list_all_iff)

lemma sorted_markers_sort: "sorted_markers (sort_key timestamp xs)"
  by (simp add: sorted_markers_def)

lemma sorted_markers_filter: "sorted_markers xs \<Longrightarrow> sorted_markers (filter P xs)"
  by (simp add: sorted_markers_def sorted_filter)

lemma addMarker_markers:
  "markers_of (fst (addMarker t i s))
     = (if list_ex (\<lambda>m. \<bar>double_minus (timestamp m) t\<bar> < 1 / 2) (markers_of s)
        then markers_of s
        else sort_key timestamp (markers_of s @ [\<lparr>marker_id = i, timestamp = t\<rparr>]))"
  by (simp add: addMarker_def markers_of_def Let_def split: option.splits)

lemma addMarker_spaced:
  assumes "spaced (markers_of s)"
  shows "spaced (markers_of (fst (addMarker t i s)))"
proof (cases "list_ex (\<lambda>m. \<bar>double_minus (timestamp m) t\<bar> < 1 / 2) (markers_of s)")
  case True
  with assms show ?thesis by (simp add: addMarker_markers)
next
  case False
  then have "list_all (\<lambda>m. \<bar>double_minus (timestamp m) t\<bar> \<ge> 1 / 2) (markers_of s)"
    by (auto simp: list_all_iff list_ex_iff not_less)
  with assms False show ?thesis
    by (simp add: addMarker_markers spaced_sort spaced_snoc)
qed

lemma update_markers:
  "markers_of (updateMarkerTimestamp_optimistic mid t s) = markers_of s
   \<or> markers_of (updateMarkerTimestamp_optimistic mid t s)
       = sort_key timestamp (set_timestamp mid t (markers_of s))"
  "markers_of (updateMarkerTimestamp mid t r s) = markers_of s
   \<or> markers_of (updateMarkerTimestamp mid t r s)
       = sort_key timestamp (set_timestamp mid t (markers_of s))"
  by (auto simp: updateMarkerTimestamp_optimistic_def updateMarkerTimestamp_def markers_of_def
      Let_def split: option.splits outcome.splits)

lemma delete_markers:
  "markers_of (deleteMarker_optimistic mid s) = markers_of s
   \<or> markers_of (deleteMarker_optimistic mid s)
       = filter (\<lambda>m. marker_id m \<noteq> mid) (markers_of s)"
  "markers_of (deleteMarker mid r s) = markers_of s
   \<or> markers_of (deleteMarker mid r s) = filter (\<lambda>m. marker_id m \<noteq> mid) (markers_of s)"
  by (auto simp: deleteMarker_optimistic_def deleteMarker_def markers_of_def
      Let_def split: option.splits outcome.splits)

text \<open>
  C7 (as the code has it). On a song whose marker list is sorted by timestamp, the
  list is sorted after an insertion, after a timestamp update (optimistic, saved or
  rolled back) and after a deletion (optimistic, saved or rolled back). An insertion
  is refused, leaving the list as it is and saving nothing, when the difference
  between its timestamp and that of an existing marker, as the language computes it
  on doubles, is below one half in absolute value. So on a song in which the computed
  difference of every two markers is one half or more, it still is after an insertion
  and after a deletion. \<^verbatim>\<open>updateMarkerTimestamp\<close> checks no spacing.
\<close>

theorem markers_sorted_and_insertion_spaced:
  "(sorted_markers (markers_of s) \<longrightarrow>
       sorted_markers (markers_of (fst (addMarker t i s)))
     \<and> sorted_markers (markers_of (updateMarkerTimestamp_optimistic mid t s))
     \<and> sorted_markers (markers_of (updateMarkerTimestamp mid t r s))
     \<and> sorted_markers (markers_of (deleteMarker_optimistic mid s))
     \<and> sorted_markers (markers_of (deleteMarker mid r s)))
   \<and> (spaced (markers_of s) \<longrightarrow>
       spaced (markers_of (fst (addMarker t i s)))
     \<and> spaced (markers_of (deleteMarker_optimistic mid s))
     \<and> spaced (markers_of (deleteMarker mid r s)))
   \<and> (list_ex (\<lambda>m. \<bar>double_minus (timestamp m) t\<bar> < 1 / 2) (markers_of s) \<longrightarrow>
       markers_of (fst (addMarker t i s)) = markers_of s \<and> snd (addMarker t i s) = None)"
proof -
  have a: "sorted_markers (markers_of (fst (addMarker t i s)))" if "sorted_markers (markers_of s)"
    using that by (simp add: addMarker_markers sorted_markers_sort)
  have u: "sorted_markers (markers_of (updateMarkerTimestamp_optimistic mid t s))"
    "sorted_markers (markers_of (updateMarkerTimestamp mid t r s))"
    if "sorted_markers (markers_of s)"
    using that update_markers(1)[of mid t s] update_markers(2)[of mid t r s]
    by (auto simp: sorted_markers_sort)
  have d: "sorted_markers (markers_of (deleteMarker_optimistic mid s))"
    "sorted_markers (markers_of (deleteMarker mid r s))"
    if "sorted_markers (markers_of s)"
    using that delete_markers(1)[of mid s] delete_markers(2)[of mid r s]
    by (auto simp: sorted_markers_filter)
  have sd: "spaced (markers_of (deleteMarker_optimistic mid s))"
    "spaced (markers_of (deleteMarker mid r s))"
    if "spaced (markers_of s)"
    using that delete_markers(1)[of mid s] delete_markers(2)[of mid r s] by (auto simp: spaced_filter)
  have rj: "markers_of (fst (addMarker t i s)) = markers_of s \<and> snd (addMarker t i s) = None"
    if "list_ex (\<lambda>m. \<bar>double_minus (timestamp m) t\<bar> < 1 / 2) (markers_of s)"
    using that by (auto simp: addMarker_def markers_of_def Let_def split: option.splits)
  from a u d sd rj addMarker_spaced[of s t i] show ?thesis by blast
qed

text \<open>The differences the language computes for the timestamps of the runs below.\<close>

lemma double_minus_values:
  "double_minus 1 5 = - 4" "double_minus 1 3 = - 2" "double_minus 5 3 = 2"
  "double_minus 3 5 = - 2" "double_minus 1 (5 / 4) = - (1 / 4)" "double_minus 5 (5 / 4) = 15 / 4"
  by code_simp+

theorem markers_sorted_and_insertion_spaced_witness:
  "sorted_markers (markers_of marked_song) \<and> spaced (markers_of marked_song)
   \<and> map timestamp (markers_of (fst (addMarker 3 ''m3'' marked_song))) = [1, 3, 5]
   \<and> spaced (markers_of (fst (addMarker 3 ''m3'' marked_song)))
   \<and> sorted_markers (markers_of (updateMarkerTimestamp ''m1'' 7 Resolved marked_song))
   \<and> map timestamp (markers_of (updateMarkerTimestamp ''m1'' 7 Resolved marked_song)) = [5, 7]
   \<and> map timestamp (markers_of (deleteMarker ''m1'' Resolved marked_song)) = [5]
   \<and> list_ex (\<lambda>m. \<bar>double_minus (timestamp m) (5 / 4)\<bar> < 1 / 2) (markers_of marked_song)
   \<and> markers_of (fst (addMarker (5 / 4) ''m3'' marked_song)) = markers_of marked_song"
proof -
  have s: "sorted_markers (markers_of marked_song)" "spaced (markers_of marked_song)"
    by (simp_all add: marked_song_def markers_of_def sorted_markers_def double_minus_values)
  have c: "list_ex (\<lambda>m. \<bar>double_minus (timestamp m) (5 / 4)\<bar> < 1 / 2) (markers_of marked_song)"
    by (simp add: marked_song_def markers_of_def double_minus_values)
  have e: "map timestamp (markers_of (fst (addMarker 3 ''m3'' marked_song))) = [1, 3, 5]"
    "map timestamp (markers_of (updateMarkerTimestamp ''m1'' 7 Resolved marked_song)) = [5, 7]"
    "map timestamp (markers_of (deleteMarker ''m1'' Resolved marked_song)) = [5]"
    by (simp_all add: addMarker_def updateMarkerTimestamp_def deleteMarker_def marked_song_def
        markers_of_def Let_def double_minus_values)
  from markers_sorted_and_insertion_spaced[of marked_song 3 "''m3''" "''m1''" Resolved] s
  have 1: "spaced (markers_of (fst (addMarker 3 ''m3'' marked_song)))" by blast
  from markers_sorted_and_insertion_spaced[of marked_song 7 "''m3''" "''m1''" Resolved] s
  have 2: "sorted_markers (markers_of (updateMarkerTimestamp ''m1'' 7 Resolved marked_song))"
    by blast
  from markers_sorted_and_insertion_spaced[of marked_song "5 / 4" "''m3''" "''m1''" Resolved] c
  have 3: "markers_of (fst (addMarker (5 / 4) ''m3'' marked_song)) = markers_of marked_song"
    by blast
  from s c e 1 2 3 show ?thesis by simp
qed

text \<open>The numbers \<^verbatim>\<open>0.1\<close> and \<^verbatim>\<open>0.6\<close>, and their computed difference.\<close>

lemma double_0_1_0_6:
  "double_0_1 = 3602879701896397 / 36028797018963968"
  "double_0_6 = 5404319552844595 / 9007199254740992"
  "double_minus double_0_1 double_0_6 = - (1 / 2)"
  by code_simp+

text \<open>
  C7 as stated fails for updates: with markers at 1 and 5 seconds, moving the second
  to 1.25 seconds leaves the list sorted with two markers 0.25 seconds apart. And
  the spacing an insertion keeps is the computed one: with a marker at \<^verbatim>\<open>0.1\<close>, an
  insertion at \<^verbatim>\<open>0.6\<close> is accepted, the computed difference being one half, while the
  two numbers are less than one half apart.
\<close>

theorem update_breaks_spacing_counterexample:
  "sorted_markers (markers_of marked_song) \<and> spaced (markers_of marked_song)
   \<and> map timestamp (markers_of (updateMarkerTimestamp ''m2'' (5 / 4) Resolved marked_song))
       = [1, 5 / 4]
   \<and> \<not> spaced (markers_of (updateMarkerTimestamp ''m2'' (5 / 4) Resolved marked_song))
   \<and> map timestamp (markers_of (fst (addMarker double_0_6 ''m2'' song_marked_at_0_1)))
       = [double_0_1, double_0_6]
   \<and> double_0_6 - double_0_1 < 1 / 2"
proof -
  have u: "sorted_markers (markers_of marked_song) \<and> spaced (markers_of marked_song)
   \<and> map timestamp (markers_of (updateMarkerTimestamp ''m2'' (5 / 4) Resolved marked_song))
       = [1, 5 / 4]
   \<and> \<not> spaced (markers_of (updateMarkerTimestamp ''m2'' (5 / 4) Resolved marked_song))"
    by (simp add: updateMarkerTimestamp_def marked_song_def markers_of_def sorted_markers_def
        Let_def double_minus_values)
  have lt: "double_0_1 < double_0_6" "double_0_6 - double_0_1 < 1 / 2"
    by (simp_all add: double_0_1_0_6)
  have i: "map timestamp (markers_of (fst (addMarker double_0_6 ''m2'' song_marked_at_0_1)))
       = [double_0_1, double_0_6]"
    using lt(1)
    by (simp add: addMarker_def song_marked_at_0_1_def markers_of_def Let_def double_0_1_0_6(3))
  from u i lt(2) show ?thesis by simp
qed


end
